theory Spec2Isabelle
  imports Complex_Main "HOL-Library.Multiset"
begin

section \<open>RehabRight: the exercise analysis engine\<close>

text \<open>
  A shallow embedding of \<^verbatim>\<open>src/lib/pose-detection.ts\<close> (\<^verbatim>\<open>calculateAngle\<close>,
  \<^verbatim>\<open>getKeyLandmarks\<close>) and \<^verbatim>\<open>src/lib/exercise-rules.ts\<close> (the class
  \<^verbatim>\<open>ExerciseAnalyzer\<close> and \<^verbatim>\<open>EXERCISE_CONFIGS\<close>).

  Conventions of the embedding:
  \<^item> a JavaScript \<^verbatim>\<open>number\<close> holding a coordinate or an angle is a \<^typ>\<open>real\<close>
    (rounding, NaN and the infinities of IEEE doubles are not modelled); the score and
    the priorities only ever hold small integers and are \<^typ>\<open>int\<close>; the counters
    are \<^typ>\<open>nat\<close>;
  \<^item> a slot of the landmark array is a \<^typ>\<open>'a option\<close>: \<open>None\<close> is
    \<^verbatim>\<open>undefined\<close> (a hole, or an index past the end of the array);
  \<^item> reading a property of \<^verbatim>\<open>undefined\<close> throws a \<^verbatim>\<open>TypeError\<close>: every
    function that may do so returns \<open>exn + 'a\<close>, with \<open>Inl\<close> the exception;
  \<^item> the fields of the class are the record \<open>AnalyzerState\<close>, passed in and returned;
    a call that throws still returns the state it has reached;
  \<^item> \<^verbatim>\<open>Date.now()\<close> is an argument of the call.
\<close>

subsection \<open>Landmarks and key points\<close>

datatype exn = TypeError

text \<open>The fields \<^verbatim>\<open>x\<close>, \<^verbatim>\<open>y\<close>, \<^verbatim>\<open>z\<close> of \<^verbatim>\<open>PoseLandmark\<close> are \<open>px\<close>, \<open>py\<close>, \<open>pz\<close>.\<close>

record PoseLandmark =
  px :: real
  py :: real
  pz :: real
  visibility :: "real option"

type_synonym Frame = "PoseLandmark option list"

text \<open>\<^verbatim>\<open>landmarks[i]\<close>: out of range, JavaScript yields \<^verbatim>\<open>undefined\<close>.\<close>

definition slot :: "Frame \<Rightarrow> nat \<Rightarrow> PoseLandmark option" where
  "slot landmarks i = (if i < length landmarks then landmarks ! i else None)"

record KeyLandmarks =
  leftShoulder :: "PoseLandmark option"
  rightShoulder :: "PoseLandmark option"
  leftElbow :: "PoseLandmark option"
  rightElbow :: "PoseLandmark option"
  leftWrist :: "PoseLandmark option"
  rightWrist :: "PoseLandmark option"
  leftHip :: "PoseLandmark option"
  rightHip :: "PoseLandmark option"
  leftKnee :: "PoseLandmark option"
  rightKnee :: "PoseLandmark option"
  leftAnkle :: "PoseLandmark option"
  rightAnkle :: "PoseLandmark option"
  nose :: "PoseLandmark option"
  leftEye :: "PoseLandmark option"
  rightEye :: "PoseLandmark option"

definition getKeyLandmarks :: "Frame \<Rightarrow> KeyLandmarks" where
  "getKeyLandmarks landmarks =
     \<lparr> leftShoulder = slot landmarks 11,
       rightShoulder = slot landmarks 12,
       leftElbow = slot landmarks 13,
       rightElbow = slot landmarks 14,
       leftWrist = slot landmarks 15,
       rightWrist = slot landmarks 16,
       leftHip = slot landmarks 23,
       rightHip = slot landmarks 24,
       leftKnee = slot landmarks 25,
       rightKnee = slot landmarks 26,
       leftAnkle = slot landmarks 27,
       rightAnkle = slot landmarks 28,
       nose = slot landmarks 0,
       leftEye = slot landmarks 1,
       rightEye = slot landmarks 2 \<rparr>"

subsection \<open>The angle calculator\<close>

text \<open>
  \<^verbatim>\<open>Math.atan2(b, a)\<close> on reals: the angle in \<open>(-\<pi>, \<pi>]\<close> of the point \<open>(a, b)\<close>,
  and \<open>0\<close> at the origin.
\<close>

definition atan2 :: "real \<Rightarrow> real \<Rightarrow> real" where
  "atan2 b a =
     (if 0 < a then arctan (b / a)
      else if a < 0 then (if 0 \<le> b then arctan (b / a) + pi else arctan (b / a) - pi)
      else if 0 < b then pi / 2
      else if b < 0 then - (pi / 2)
      else 0)"

text \<open>The body of \<^verbatim>\<open>calculateAngle\<close> once its three points are known to be objects.\<close>

definition angleAt :: "PoseLandmark \<Rightarrow> PoseLandmark \<Rightarrow> PoseLandmark \<Rightarrow> real" where
  "angleAt point1 point2 point3 =
     (let radians = atan2 (py point3 - py point2) (px point3 - px point2) -
                    atan2 (py point1 - py point2) (px point1 - px point2);
          angle = \<bar>radians * (180 / pi)\<bar>
      in if angle > 180 then 360 - angle else angle)"

text \<open>\<^verbatim>\<open>calculateAngle\<close>: the first read of \<^verbatim>\<open>.x\<close> or \<^verbatim>\<open>.y\<close> on an absent point throws.\<close>

definition calculateAngle ::
  "PoseLandmark option \<Rightarrow> PoseLandmark option \<Rightarrow> PoseLandmark option \<Rightarrow> exn + real" where
  "calculateAngle point1 point2 point3 =
     (case (point1, point2, point3) of
        (Some p1, Some p2, Some p3) \<Rightarrow> Inr (angleAt p1 p2 p3)
      | _ \<Rightarrow> Inl TypeError)"

text \<open>Sequencing of computations that may throw, and a property read \<^verbatim>\<open>p.f\<close>.\<close>

definition bind_exn :: "exn + 'a \<Rightarrow> ('a \<Rightarrow> exn + 'b) \<Rightarrow> exn + 'b" where
  "bind_exn m f = (case m of Inl e \<Rightarrow> Inl e | Inr v \<Rightarrow> f v)"

definition getProp :: "PoseLandmark option \<Rightarrow> (PoseLandmark \<Rightarrow> real) \<Rightarrow> exn + real" where
  "getProp p f = (case p of None \<Rightarrow> Inl TypeError | Some l \<Rightarrow> Inr (f l))"

subsection \<open>Messages, repetitions, analyzer state\<close>

datatype FeedbackType = Success | Warning | Error | Info

record FeedbackMessage =
  type :: FeedbackType
  message :: string
  priority :: int

record Angles =
  knee :: real
  hip :: real
  shoulder :: real

text \<open>\<^verbatim>\<open>RepData\<close>; its fields \<^verbatim>\<open>angles\<close> and \<^verbatim>\<open>score\<close> are \<open>rep_angles\<close> and \<open>rep_score\<close>.\<close>

record RepData =
  repIndex :: nat
  rep_angles :: Angles
  flags :: "string list"
  rep_score :: int
  timestamp :: nat

record ExerciseThresholds =
  depth :: "real option"
  valgusLimit :: "real option"
  leanLimit :: "real option"
  romMin :: "real option"
  romMax :: "real option"
  symmetryLimit :: "real option"

record ExerciseConfig =
  name :: string
  targetReps :: nat
  thresholds :: ExerciseThresholds

text \<open>The private fields of \<^verbatim>\<open>ExerciseAnalyzer\<close>.\<close>

record AnalyzerState =
  repCount :: nat
  currentScore :: int
  lastPosition :: string
  repData :: "RepData list"
  frameCount :: nat

text \<open>
  The object returned by both policies; its fields \<^verbatim>\<open>repCount\<close> and
  \<^verbatim>\<open>isInPosition\<close> are \<open>out_repCount\<close> and \<open>out_isInPosition\<close>.
\<close>

record Analysis =
  score :: int
  feedback :: "FeedbackMessage list"
  out_repCount :: nat
  out_isInPosition :: bool
  angles :: Angles

text \<open>A freshly constructed analyzer, and \<^verbatim>\<open>reset()\<close>.\<close>

definition newAnalyzer :: AnalyzerState where
  "newAnalyzer =
     \<lparr> repCount = 0, currentScore = 0, lastPosition = ''up'', repData = [], frameCount = 0 \<rparr>"

definition reset :: "AnalyzerState \<Rightarrow> AnalyzerState" where
  "reset s =
     s\<lparr> repCount := 0, currentScore := 0, lastPosition := ''up'', repData := [],
        frameCount := 0 \<rparr>"

definition getRepData :: "AnalyzerState \<Rightarrow> RepData list" where
  "getRepData s = repData s"

subsection \<open>Ranking the feedback\<close>

text \<open>
  \<^verbatim>\<open>Array.prototype.sort(cmp)\<close> is a stable sort (ECMAScript 2019). It is modelled by
  insertion from the right, which keeps elements that compare equal in their order.
\<close>

fun insert_by :: "('a \<Rightarrow> 'a \<Rightarrow> int) \<Rightarrow> 'a \<Rightarrow> 'a list \<Rightarrow> 'a list" where
  "insert_by cmp a [] = [a]"
| "insert_by cmp a (b # bs) = (if cmp a b \<le> 0 then a # b # bs else b # insert_by cmp a bs)"

definition sort_by :: "('a \<Rightarrow> 'a \<Rightarrow> int) \<Rightarrow> 'a list \<Rightarrow> 'a list" where
  "sort_by cmp xs = foldr (insert_by cmp) xs []"

text \<open>\<^verbatim>\<open>feedback.sort((a, b) => b.priority - a.priority).slice(0, 2)\<close>\<close>

definition rankFeedback :: "FeedbackMessage list \<Rightarrow> FeedbackMessage list" where
  "rankFeedback fb = take 2 (sort_by (\<lambda>a b. priority b - priority a) fb)"

subsection \<open>The squat policy\<close>

text \<open>The object literals \<^verbatim>\<open>shoulderMidpoint\<close> and \<^verbatim>\<open>hipMidpoint\<close>.\<close>

definition midpoint :: "PoseLandmark option \<Rightarrow> PoseLandmark option \<Rightarrow> exn + PoseLandmark" where
  "midpoint a b =
     (case (a, b) of
        (Some p, Some q) \<Rightarrow>
          Inr \<lparr> px = (px p + px q) / 2, py = (py p + py q) / 2, pz = (pz p + pz q) / 2,
                visibility = None \<rparr>
      | _ \<Rightarrow> Inl TypeError)"

text \<open>The values that \<^verbatim>\<open>analyzeSquat\<close> computes from the key points of one frame.\<close>

record SquatFrame =
  kneeAngle :: real
  hipAngle :: real
  isInBottomPosition :: bool
  hasGoodDepth :: bool
  leftValgus :: bool
  rightValgus :: bool
  excessiveLean :: bool

definition squatFrame :: "KeyLandmarks \<Rightarrow> exn + SquatFrame" where
  "squatFrame keyLandmarks =
     bind_exn (calculateAngle (leftHip keyLandmarks) (leftKnee keyLandmarks)
                 (leftAnkle keyLandmarks)) (\<lambda>leftKneeAngle.
     bind_exn (calculateAngle (rightHip keyLandmarks) (rightKnee keyLandmarks)
                 (rightAnkle keyLandmarks)) (\<lambda>rightKneeAngle.
     bind_exn (calculateAngle (leftShoulder keyLandmarks) (leftHip keyLandmarks)
                 (leftKnee keyLandmarks)) (\<lambda>hipAngle.
     bind_exn (getProp (leftKnee keyLandmarks) px) (\<lambda>leftKneeX.
     bind_exn (getProp (leftAnkle keyLandmarks) px) (\<lambda>leftAnkleX.
     bind_exn (getProp (rightKnee keyLandmarks) px) (\<lambda>rightKneeX.
     bind_exn (getProp (rightAnkle keyLandmarks) px) (\<lambda>rightAnkleX.
     bind_exn (midpoint (leftShoulder keyLandmarks) (rightShoulder keyLandmarks))
       (\<lambda>shoulderMidpoint.
     bind_exn (midpoint (leftHip keyLandmarks) (rightHip keyLandmarks)) (\<lambda>hipMidpoint.
       (let kneeAngle = min leftKneeAngle rightKneeAngle;
            torsoLean = \<bar>px shoulderMidpoint - px hipMidpoint\<bar>
        in Inr \<lparr> kneeAngle = kneeAngle,
                 hipAngle = hipAngle,
                 isInBottomPosition = (kneeAngle < 120),
                 hasGoodDepth = (kneeAngle < 90),
                 leftValgus = (leftKneeX < leftAnkleX - 0.02),
                 rightValgus = (rightKneeX > rightAnkleX + 0.02),
                 excessiveLean = (torsoLean > 0.05) \<rparr>))))))))))"

text \<open>The record pushed on the counted transition, with its three conditional flags.\<close>

definition squatRep :: "AnalyzerState \<Rightarrow> SquatFrame \<Rightarrow> nat \<Rightarrow> RepData" where
  "squatRep s g now =
     \<lparr> repIndex = repCount s,
       rep_angles = \<lparr> knee = kneeAngle g, hip = hipAngle g, shoulder = 0 \<rparr>,
       flags = (if \<not> hasGoodDepth g then [''shallow_squat''] else []) @
               (if leftValgus g \<or> rightValgus g then [''knee_valgus''] else []) @
               (if excessiveLean g then [''excessive_lean''] else []),
       rep_score = currentScore s,
       timestamp = now \<rparr>"

text \<open>The block "Rep counting" of \<^verbatim>\<open>analyzeSquat\<close>.\<close>

definition squatCount :: "AnalyzerState \<Rightarrow> SquatFrame \<Rightarrow> nat \<Rightarrow> AnalyzerState" where
  "squatCount s g now =
     (if isInBottomPosition g \<and> lastPosition s = ''up'' then s\<lparr> lastPosition := ''down'' \<rparr>
      else if \<not> isInBottomPosition g \<and> lastPosition s = ''down'' then
        (let s1 = s\<lparr> repCount := repCount s + 1 \<rparr>;
             s2 = s1\<lparr> lastPosition := ''up'' \<rparr>
         in s2\<lparr> repData := repData s2 @ [squatRep s2 g now] \<rparr>)
      else s)"

text \<open>
  The blocks "Generate feedback" and "Frame rate limiting" of \<^verbatim>\<open>analyzeSquat\<close>: the
  messages in the order they are pushed, and the score after the deductions. The
  argument \<open>fc\<close> is the frame counter, already incremented.
\<close>

definition squatFeedback :: "SquatFrame \<Rightarrow> nat \<Rightarrow> FeedbackMessage list \<times> int" where
  "squatFeedback g fc =
     (let (feedback, score) = ([], 100);
          (feedback, score) =
            (if isInBottomPosition g then
               (if \<not> hasGoodDepth g then
                  (feedback @ [\<lparr> type = Warning,
                       message = ''Go a bit deeper - aim for thighs parallel to floor'',
                       priority = 3 \<rparr>], score - 15)
                else
                  (feedback @ [\<lparr> type = Success, message = ''Great depth!'',
                       priority = 1 \<rparr>], score))
             else (feedback, score));
          (feedback, score) =
            (if leftValgus g \<or> rightValgus g then
               (feedback @ [\<lparr> type = Error,
                    message = ''Push your knees out - don't let them cave in'',
                    priority = 4 \<rparr>], score - 20)
             else (feedback, score));
          (feedback, score) =
            (if excessiveLean g then
               (feedback @ [\<lparr> type = Warning,
                    message = ''Keep your chest up and back straight'',
                    priority = 2 \<rparr>], score - 10)
             else (feedback, score));
          feedback =
            (if fc mod 30 = 0 then
               (if length feedback = 0 \<and> isInBottomPosition g then
                  feedback @ [\<lparr> type = Info, message = ''Looking good! Keep it controlled'',
                       priority = 0 \<rparr>]
                else feedback)
             else feedback)
      in (feedback, score))"

text \<open>
  \<^verbatim>\<open>analyzeSquat(landmarks, config)\<close>. The frame counter is incremented before the first
  read of a landmark, so a call that throws has already counted the frame; every
  other write to the state comes after the last read.
\<close>

definition analyzeSquat ::
  "AnalyzerState \<Rightarrow> Frame \<Rightarrow> ExerciseConfig \<Rightarrow> nat \<Rightarrow> AnalyzerState \<times> (exn + Analysis)" where
  "analyzeSquat s landmarks config now =
     (let keyLandmarks = getKeyLandmarks landmarks;
          s1 = s\<lparr> frameCount := frameCount s + 1 \<rparr>
      in case squatFrame keyLandmarks of
           Inl e \<Rightarrow> (s1, Inl e)
         | Inr g \<Rightarrow>
             (let s2 = squatCount s1 g now;
                  (feedback, score) = squatFeedback g (frameCount s2);
                  s3 = s2\<lparr> currentScore := max 0 score \<rparr>
              in (s3, Inr \<lparr> score = currentScore s3,
                            feedback = rankFeedback feedback,
                            out_repCount = repCount s3,
                            out_isInPosition = isInBottomPosition g,
                            angles = \<lparr> knee = kneeAngle g, hip = hipAngle g,
                                        shoulder = 0 \<rparr> \<rparr>)))"

subsection \<open>The shoulder abduction policy\<close>

text \<open>The values that \<^verbatim>\<open>analyzeShoulderAbduction\<close> computes from one frame.\<close>

record ShoulderFrame =
  avgShoulderAngle :: real
  shoulderSymmetry :: real
  angleDeviation :: real
  isInTargetRange :: bool
  isInPosition :: bool
  leftHiking :: bool
  rightHiking :: bool

definition targetAngle :: real where
  "targetAngle = 90"

definition shoulderFrame :: "KeyLandmarks \<Rightarrow> exn + ShoulderFrame" where
  "shoulderFrame keyLandmarks =
     bind_exn (calculateAngle (leftElbow keyLandmarks) (leftShoulder keyLandmarks)
                 (leftHip keyLandmarks)) (\<lambda>leftShoulderAngle.
     bind_exn (calculateAngle (rightElbow keyLandmarks) (rightShoulder keyLandmarks)
                 (rightHip keyLandmarks)) (\<lambda>rightShoulderAngle.
     bind_exn (getProp (leftElbow keyLandmarks) py) (\<lambda>leftElbowY.
     bind_exn (getProp (leftShoulder keyLandmarks) py) (\<lambda>leftShoulderY.
     bind_exn (getProp (rightElbow keyLandmarks) py) (\<lambda>rightElbowY.
     bind_exn (getProp (rightShoulder keyLandmarks) py) (\<lambda>rightShoulderY.
       (let avgShoulderAngle = (leftShoulderAngle + rightShoulderAngle) / 2;
            shoulderSymmetry = \<bar>leftShoulderAngle - rightShoulderAngle\<bar>;
            angleDeviation = \<bar>avgShoulderAngle - targetAngle\<bar>
        in Inr \<lparr> avgShoulderAngle = avgShoulderAngle,
                 shoulderSymmetry = shoulderSymmetry,
                 angleDeviation = angleDeviation,
                 isInTargetRange = (angleDeviation \<le> 10),
                 isInPosition = (avgShoulderAngle > 45),
                 leftHiking = (leftElbowY < leftShoulderY),
                 rightHiking = (rightElbowY < rightShoulderY) \<rparr>)))))))"

text \<open>The block "Rep counting for shoulder abduction".\<close>

definition shoulderCount :: "AnalyzerState \<Rightarrow> ShoulderFrame \<Rightarrow> AnalyzerState" where
  "shoulderCount s g =
     (if isInPosition g \<and> avgShoulderAngle g > 75 \<and> lastPosition s = ''down'' then
        s\<lparr> lastPosition := ''up'' \<rparr>
      else if \<not> isInPosition g \<and> avgShoulderAngle g < 30 \<and> lastPosition s = ''up'' then
        (let s1 = s\<lparr> repCount := repCount s + 1 \<rparr>
         in s1\<lparr> lastPosition := ''down'' \<rparr>)
      else s)"

text \<open>The block "Generate feedback" of \<^verbatim>\<open>analyzeShoulderAbduction\<close>.\<close>

definition shoulderFeedback :: "ShoulderFrame \<Rightarrow> FeedbackMessage list \<times> int" where
  "shoulderFeedback g =
     (let (feedback, score) = ([], 100);
          (feedback, score) =
            (if angleDeviation g > 15 then
               (if avgShoulderAngle g < targetAngle - 15 then
                  (feedback @ [\<lparr> type = Warning,
                       message = ''Raise your arms higher - aim for 90 degrees'',
                       priority = 3 \<rparr>], score - 15)
                else if avgShoulderAngle g > targetAngle + 15 then
                  (feedback @ [\<lparr> type = Warning,
                       message = ''Lower your arms slightly - aim for 90 degrees'',
                       priority = 3 \<rparr>], score - 10)
                else (feedback, score))
             else (feedback, score));
          (feedback, score) =
            (if shoulderSymmetry g > 15 then
               (feedback @ [\<lparr> type = Error,
                    message = ''Keep both arms at the same level for symmetry'',
                    priority = 4 \<rparr>], score - 20)
             else (feedback, score));
          (feedback, score) =
            (if leftHiking g \<or> rightHiking g then
               (feedback @ [\<lparr> type = Warning,
                    message = ''Relax your shoulders - don't shrug them up'',
                    priority = 2 \<rparr>], score - 10)
             else (feedback, score));
          feedback =
            (if isInTargetRange g \<and> shoulderSymmetry g \<le> 10 then
               feedback @ [\<lparr> type = Success,
                    message = ''Perfect form! Great ROM and symmetry'',
                    priority = 1 \<rparr>]
             else feedback)
      in (feedback, score))"

text \<open>
  \<^verbatim>\<open>analyzeShoulderAbduction(landmarks, config)\<close>. It never touches the frame counter or
  the rep log, and every write to the state comes after the last read of a landmark.
\<close>

definition analyzeShoulderAbduction ::
  "AnalyzerState \<Rightarrow> Frame \<Rightarrow> ExerciseConfig \<Rightarrow> AnalyzerState \<times> (exn + Analysis)" where
  "analyzeShoulderAbduction s landmarks config =
     (let keyLandmarks = getKeyLandmarks landmarks
      in case shoulderFrame keyLandmarks of
           Inl e \<Rightarrow> (s, Inl e)
         | Inr g \<Rightarrow>
             (let s2 = shoulderCount s g;
                  (feedback, score) = shoulderFeedback g;
                  s3 = s2\<lparr> currentScore := max 0 score \<rparr>
              in (s3, Inr \<lparr> score = currentScore s3,
                            feedback = rankFeedback feedback,
                            out_repCount = repCount s3,
                            out_isInPosition = isInPosition g,
                            angles = \<lparr> knee = 0, hip = 0,
                                        shoulder = avgShoulderAngle g \<rparr> \<rparr>)))"

subsection \<open>The configuration registry\<close>

text \<open>\<^verbatim>\<open>EXERCISE_CONFIGS\<close>, a record keyed by the exercise identifier.\<close>

definition noThresholds :: ExerciseThresholds where
  "noThresholds =
     \<lparr> depth = None, valgusLimit = None, leanLimit = None, romMin = None, romMax = None,
       symmetryLimit = None \<rparr>"

definition squatConfig :: ExerciseConfig where
  "squatConfig =
     \<lparr> name = ''Squat'', targetReps = 10,
       thresholds = noThresholds\<lparr> depth := Some 90, valgusLimit := Some 0.02,
                                   leanLimit := Some 0.05 \<rparr> \<rparr>"

definition shoulderAbductionConfig :: ExerciseConfig where
  "shoulderAbductionConfig =
     \<lparr> name = ''Shoulder Abduction'', targetReps = 15,
       thresholds = noThresholds\<lparr> romMin := Some 80, romMax := Some 100,
                                   symmetryLimit := Some 15 \<rparr> \<rparr>"

definition EXERCISE_CONFIGS :: "string \<Rightarrow> ExerciseConfig option" where
  "EXERCISE_CONFIGS key =
     (if key = ''squat'' then Some squatConfig
      else if key = ''shoulderAbduction'' then Some shoulderAbductionConfig
      else None)"

subsection \<open>Sequences of calls on one analyzer\<close>

text \<open>
  The calls a client can make on an \<^verbatim>\<open>ExerciseAnalyzer\<close>. A call that throws leaves the
  object as it is at the throw, and the next call goes on from there (the render loop
  of \<^verbatim>\<open>LiveSession\<close> catches the exception and requests the next frame).
\<close>

datatype call =
  Squat Frame ExerciseConfig nat
  | ShoulderAbduction Frame ExerciseConfig
  | Reset

fun perform :: "AnalyzerState \<Rightarrow> call \<Rightarrow> AnalyzerState" where
  "perform s (Squat landmarks config now) = fst (analyzeSquat s landmarks config now)"
| "perform s (ShoulderAbduction landmarks config) = fst (analyzeShoulderAbduction s landmarks config)"
| "perform s Reset = reset s"

definition run :: "AnalyzerState \<Rightarrow> call list \<Rightarrow> AnalyzerState" where
  "run s calls = foldl perform s calls"

subsection \<open>What a call in a sequence shows\<close>

text \<open>The key points each policy reads: their indices in the landmark array.\<close>

definition squatKeypoints :: "nat list" where
  "squatKeypoints = [11, 12, 23, 24, 25, 26, 27, 28]"

definition shoulderKeypoints :: "nat list" where
  "shoulderKeypoints = [11, 12, 13, 14, 23, 24]"

text \<open>
  The knee angle and the average shoulder angle that a policy computes from a frame
  (\<open>None\<close> when the computation throws), and calls classified by that angle.
\<close>

definition kneeAngleOf :: "Frame \<Rightarrow> real option" where
  "kneeAngleOf f =
     (case squatFrame (getKeyLandmarks f) of Inl e \<Rightarrow> None | Inr g \<Rightarrow> Some (kneeAngle g))"


fun kneeIn :: "(real \<Rightarrow> bool) \<Rightarrow> call \<Rightarrow> bool" where
  "kneeIn P (Squat f c t) = (case kneeAngleOf f of None \<Rightarrow> False | Some a \<Rightarrow> P a)"
| "kneeIn P (ShoulderAbduction f c) = False"
| "kneeIn P Reset = False"


subsection \<open>Plane geometry at a vertex\<close>

text \<open>
  For the rays from \<open>p2\<close> to \<open>p1\<close> and to \<open>p3\<close>, in the image plane: the scalar product
  and the cross product of their direction vectors, and the length of a ray's vector.
  The rays are opposite when the cross product is zero and the scalar product
  negative, and equal when the cross product is zero and the scalar product positive.
\<close>

definition dotAt :: "PoseLandmark \<Rightarrow> PoseLandmark \<Rightarrow> PoseLandmark \<Rightarrow> real" where
  "dotAt p1 p2 p3 = (px p1 - px p2) * (px p3 - px p2) + (py p1 - py p2) * (py p3 - py p2)"

definition crossAt :: "PoseLandmark \<Rightarrow> PoseLandmark \<Rightarrow> PoseLandmark \<Rightarrow> real" where
  "crossAt p1 p2 p3 = (px p1 - px p2) * (py p3 - py p2) - (py p1 - py p2) * (px p3 - px p2)"

definition rayLength :: "PoseLandmark \<Rightarrow> PoseLandmark \<Rightarrow> real" where
  "rayLength p q = sqrt ((px p - px q)\<^sup>2 + (py p - py q)\<^sup>2)"

subsection \<open>Example frames\<close>

text \<open>
  Frames of 33 landmarks in normalised image coordinates (\<open>y\<close> grows downwards), given
  by the key points that matter; every other slot holds one fixed point.
\<close>

definition xy :: "real \<Rightarrow> real \<Rightarrow> PoseLandmark" where
  "xy a b = \<lparr> px = a, py = b, pz = 0, visibility = None \<rparr>"

definition pt :: "real \<Rightarrow> real \<Rightarrow> PoseLandmark option" where
  "pt a b = Some (xy a b)"

definition frameOf :: "(nat \<Rightarrow> PoseLandmark option) \<Rightarrow> Frame" where
  "frameOf f = map f [0..<33]"

text \<open>Upright, legs straight, arms hanging: knee and hip angles 180, shoulder angles 0.\<close>

definition standing :: Frame where
  "standing = frameOf ((\<lambda>i. pt 0.5 0.1)
     (11 := pt 0.4 0.3, 12 := pt 0.6 0.3, 13 := pt 0.4 0.5, 14 := pt 0.6 0.5,
      23 := pt 0.4 0.5, 24 := pt 0.6 0.5, 25 := pt 0.4 0.7, 26 := pt 0.6 0.7,
      27 := pt 0.4 0.9, 28 := pt 0.6 0.9))"

text \<open>Thighs horizontal: both knee angles 90, no valgus, no lean.\<close>

definition shallowSquat :: Frame where
  "shallowSquat = frameOf ((\<lambda>i. pt 0.5 0.1)
     (11 := pt 0.2 0.5, 12 := pt 0.8 0.5, 13 := pt 0.2 0.6, 14 := pt 0.8 0.6,
      23 := pt 0.2 0.7, 24 := pt 0.8 0.7, 25 := pt 0.4 0.7, 26 := pt 0.6 0.7,
      27 := pt 0.4 0.9, 28 := pt 0.6 0.9))"

text \<open>
  Knee angles 90 and hip angle 180, with the left knee well inside its ankle and the
  shoulders off the hips: the three deductions of the squat policy apply together.
\<close>

definition poorSquat :: Frame where
  "poorSquat = frameOf ((\<lambda>i. pt 0.5 0.1)
     (11 := pt 0.4 0.3, 12 := pt 1 0.3, 13 := pt 0.4 0.4, 14 := pt 1 0.4,
      23 := pt 0.4 0.5, 24 := pt 0.8 0.7, 25 := pt 0.4 0.7, 26 := pt 0.6 0.7,
      27 := pt 0.6 0.7, 28 := pt 0.6 0.9))"

text \<open>The upright frame with the slot of the left knee empty.\<close>

definition missingLeftKnee :: Frame where
  "missingLeftKnee = standing[25 := None]"

text \<open>
  Arms horizontal (both shoulder angles 90); left arm raised to 135 with the elbow above
  the shoulder and right arm at the side (average 67.5); arms at the sides (both 0).
\<close>

definition armsRaised :: Frame where
  "armsRaised = frameOf ((\<lambda>i. pt 0.5 0.1)
     (11 := pt 0.4 0.3, 12 := pt 0.6 0.3, 13 := pt 0.2 0.3, 14 := pt 0.8 0.3,
      23 := pt 0.4 0.7, 24 := pt 0.6 0.7))"


definition armsDown :: Frame where
  "armsDown = frameOf ((\<lambda>i. pt 0.5 0.1)
     (11 := pt 0.4 0.3, 12 := pt 0.6 0.3, 13 := pt 0.4 0.5, 14 := pt 0.6 0.5,
      23 := pt 0.4 0.7, 24 := pt 0.6 0.7))"

section \<open>Auxiliary facts\<close>

subsection \<open>The angle calculator\<close>

lemma atan2_bounds: "- pi < atan2 b a \<and> atan2 b a \<le> pi"
proof -
  have l: "- (pi / 2) < arctan (b / a)" and u: "arctan (b / a) < pi / 2"
    by (rule arctan_lbound, rule arctan_ubound)
  have neg: "b < 0 \<Longrightarrow> a < 0 \<Longrightarrow> 0 < arctan (b / a)"
    by (simp add: zero_less_arctan_iff zero_less_divide_iff)
  have pos: "0 \<le> b \<Longrightarrow> a < 0 \<Longrightarrow> arctan (b / a) \<le> 0"
    by (simp add: arctan_le_zero_iff divide_le_0_iff)
  show ?thesis
    using l u neg pos pi_gt_zero unfolding atan2_def by (auto simp: not_less)
qed

lemma fold_range:
  fixes r :: real
  assumes "- (2 * pi) < r" "r < 2 * pi"
  shows "0 \<le> (let angle = \<bar>r * (180 / pi)\<bar> in if angle > 180 then 360 - angle else angle)
       \<and> (let angle = \<bar>r * (180 / pi)\<bar> in if angle > 180 then 360 - angle else angle) \<le> 180"
proof -
  have "\<bar>r\<bar> < 2 * pi" using assms by simp
  then have "\<bar>r\<bar> * (180 / pi) < 2 * pi * (180 / pi)"
    by (intro mult_strict_right_mono) simp_all
  then have "\<bar>r * (180 / pi)\<bar> < 360" by (simp add: abs_mult)
  then show ?thesis by (auto simp: Let_def)
qed

lemma angleAt_range: "0 \<le> angleAt p1 p2 p3 \<and> angleAt p1 p2 p3 \<le> 180"
proof -
  let ?r = "atan2 (py p3 - py p2) (px p3 - px p2) - atan2 (py p1 - py p2) (px p1 - px p2)"
  have "- (2 * pi) < ?r" "?r < 2 * pi"
    using atan2_bounds [of "py p3 - py p2" "px p3 - px p2"]
          atan2_bounds [of "py p1 - py p2" "px p1 - px p2"] by linarith+
  from fold_range [OF this] show ?thesis unfolding angleAt_def Let_def by simp
qed

lemma atan2_polar:
  assumes "a \<noteq> 0 \<or> b \<noteq> 0"
  shows "a = sqrt (a\<^sup>2 + b\<^sup>2) * cos (atan2 b a)" "b = sqrt (a\<^sup>2 + b\<^sup>2) * sin (atan2 b a)"
proof -
  have pos: "sqrt (a\<^sup>2 + b\<^sup>2) = a * sqrt (1 + (b / a)\<^sup>2)" if "0 < a"
  proof -
    have "a\<^sup>2 + b\<^sup>2 = a\<^sup>2 * (1 + (b / a)\<^sup>2)" using that by (simp add: field_simps power2_eq_square)
    then show ?thesis using that by (simp add: real_sqrt_mult)
  qed
  have neg: "sqrt (a\<^sup>2 + b\<^sup>2) = - a * sqrt (1 + (b / a)\<^sup>2)" if "a < 0"
  proof -
    have "a\<^sup>2 + b\<^sup>2 = a\<^sup>2 * (1 + (b / a)\<^sup>2)" using that by (simp add: field_simps power2_eq_square)
    then show ?thesis using that by (simp add: real_sqrt_mult)
  qed
  have nz: "sqrt (1 + (b / a)\<^sup>2) \<noteq> 0"
    by (metis add_nonneg_pos less_numeral_extra(1) not_less_iff_gr_or_eq real_sqrt_gt_zero zero_le_power2 add.commute)
  consider "0 < a" | "a < 0" "0 \<le> b" | "a < 0" "b < 0" | "a = 0" "0 < b" | "a = 0" "b < 0"
    using assms by linarith
  then have "a = sqrt (a\<^sup>2 + b\<^sup>2) * cos (atan2 b a) \<and> b = sqrt (a\<^sup>2 + b\<^sup>2) * sin (atan2 b a)"
  proof cases
    case 1
    then show ?thesis using nz by (simp add: atan2_def pos cos_arctan sin_arctan)
  next
    case 2
    then show ?thesis using nz by (simp add: atan2_def neg cos_arctan sin_arctan)
  next
    case 3
    then show ?thesis using nz by (simp add: atan2_def neg cos_arctan sin_arctan)
  next
    case 4
    then show ?thesis by (simp add: atan2_def)
  next
    case 5
    then show ?thesis by (simp add: atan2_def)
  qed
  then show "a = sqrt (a\<^sup>2 + b\<^sup>2) * cos (atan2 b a)" "b = sqrt (a\<^sup>2 + b\<^sup>2) * sin (atan2 b a)"
    by simp_all
qed

lemma cos_diff_dot:
  assumes u: "a \<noteq> 0 \<or> b \<noteq> 0" and v: "c \<noteq> 0 \<or> d \<noteq> 0"
  shows "cos (atan2 d c - atan2 b a) = (a * c + b * d) / (sqrt (a\<^sup>2 + b\<^sup>2) * sqrt (c\<^sup>2 + d\<^sup>2))"
proof -
  let ?r = "sqrt (a\<^sup>2 + b\<^sup>2)" and ?q = "sqrt (c\<^sup>2 + d\<^sup>2)"
  have r: "?r \<noteq> 0" using u by (auto simp: sum_power2_eq_zero_iff)
  have q: "?q \<noteq> 0" using v by (auto simp: sum_power2_eq_zero_iff)
  have "a * c + b * d = (?r * cos (atan2 b a)) * (?q * cos (atan2 d c)) + (?r * sin (atan2 b a)) * (?q * sin (atan2 d c))"
    using atan2_polar [OF u] atan2_polar [OF v] by simp
  also have "\<dots> = ?r * ?q * cos (atan2 d c - atan2 b a)"
    by (simp add: cos_diff algebra_simps)
  finally show ?thesis using r q by simp
qed

lemma fold_arccos:
  fixes r :: real
  assumes "- (2 * pi) < r" "r < 2 * pi"
  shows "(let angle = \<bar>r * (180 / pi)\<bar> in if angle > 180 then 360 - angle else angle)
         = arccos (cos r) * (180 / pi)"
proof -
  have eq: "\<bar>r * (180 / pi)\<bar> = \<bar>r\<bar> * (180 / pi)" by (simp add: abs_mult)
  have iff: "\<bar>r\<bar> * (180 / pi) > 180 \<longleftrightarrow> \<bar>r\<bar> > pi"
    using pi_gt_zero by (simp add: field_simps)
  show ?thesis
  proof (cases "\<bar>r\<bar> > pi")
    case True
    have "arccos (cos r) = arccos (cos (2 * pi - \<bar>r\<bar>))"
      by (simp add: cos_diff abs_if)
    also have "\<dots> = 2 * pi - \<bar>r\<bar>"
      using True assms by (intro arccos_cos) (auto simp: abs_if)
    finally have "arccos (cos r) * (180 / pi) = 360 - \<bar>r\<bar> * (180 / pi)"
      using pi_gt_zero by (simp add: field_simps)
    then show ?thesis using True iff eq by (simp add: Let_def)
  next
    case False
    then have "arccos (cos r) = \<bar>r\<bar>" by (intro arccos_cos_eq_abs) simp
    then show ?thesis using False iff eq by (simp add: Let_def)
  qed
qed

lemma angleAt_arccos:
  assumes "px p1 \<noteq> px p2 \<or> py p1 \<noteq> py p2" "px p3 \<noteq> px p2 \<or> py p3 \<noteq> py p2"
  shows "angleAt p1 p2 p3 =
     arccos (((px p1 - px p2) * (px p3 - px p2) + (py p1 - py p2) * (py p3 - py p2)) /
             (sqrt ((px p1 - px p2)\<^sup>2 + (py p1 - py p2)\<^sup>2) *
              sqrt ((px p3 - px p2)\<^sup>2 + (py p3 - py p2)\<^sup>2))) * (180 / pi)"
proof -
  let ?r = "atan2 (py p3 - py p2) (px p3 - px p2) - atan2 (py p1 - py p2) (px p1 - px p2)"
  have b: "- (2 * pi) < ?r" "?r < 2 * pi"
    using atan2_bounds [of "py p3 - py p2" "px p3 - px p2"]
          atan2_bounds [of "py p1 - py p2" "px p1 - px p2"] by linarith+
  have "angleAt p1 p2 p3 = arccos (cos ?r) * (180 / pi)"
    using fold_arccos [OF b] unfolding angleAt_def Let_def by simp
  also have "cos ?r = ((px p1 - px p2) * (px p3 - px p2) + (py p1 - py p2) * (py p3 - py p2)) /
             (sqrt ((px p1 - px p2)\<^sup>2 + (py p1 - py p2)\<^sup>2) *
              sqrt ((px p3 - px p2)\<^sup>2 + (py p3 - py p2)\<^sup>2))"
    using assms by (intro cos_diff_dot) auto
  finally show ?thesis .
qed

lemma collinear_dot:
  fixes a b c d :: real
  assumes "a * d - b * c = 0"
  shows "\<bar>a * c + b * d\<bar> = sqrt (a\<^sup>2 + b\<^sup>2) * sqrt (c\<^sup>2 + d\<^sup>2)"
proof -
  have "(a * c + b * d)\<^sup>2 = (a\<^sup>2 + b\<^sup>2) * (c\<^sup>2 + d\<^sup>2) - (a * d - b * c)\<^sup>2"
    by (simp add: power2_eq_square algebra_simps)
  then have "(a * c + b * d)\<^sup>2 = (a\<^sup>2 + b\<^sup>2) * (c\<^sup>2 + d\<^sup>2)" using assms by simp
  then have "sqrt ((a * c + b * d)\<^sup>2) = sqrt ((a\<^sup>2 + b\<^sup>2) * (c\<^sup>2 + d\<^sup>2))" by simp
  then show ?thesis by (simp add: real_sqrt_mult)
qed

lemma angleAt_opposite:
  assumes "crossAt p1 p2 p3 = 0" "dotAt p1 p2 p3 < 0"
  shows "angleAt p1 p2 p3 = 180"
proof -
  have nz: "px p1 \<noteq> px p2 \<or> py p1 \<noteq> py p2" "px p3 \<noteq> px p2 \<or> py p3 \<noteq> py p2"
    using assms(2) by (auto simp: dotAt_def)
  have "\<bar>dotAt p1 p2 p3\<bar> = rayLength p1 p2 * rayLength p3 p2"
    using collinear_dot [of "px p1 - px p2" "py p3 - py p2" "py p1 - py p2" "px p3 - px p2"] assms(1)
    by (simp add: dotAt_def crossAt_def rayLength_def)
  then have e: "rayLength p1 p2 * rayLength p3 p2 = - dotAt p1 p2 p3" using assms(2) by simp
  have r: "dotAt p1 p2 p3 / (rayLength p1 p2 * rayLength p3 p2) = - 1"
    unfolding e using assms(2) by simp
  have "angleAt p1 p2 p3 = arccos (dotAt p1 p2 p3 / (rayLength p1 p2 * rayLength p3 p2)) * (180 / pi)"
    using angleAt_arccos [OF nz] by (simp only: dotAt_def rayLength_def)
  then show ?thesis unfolding r by simp
qed

lemma angleAt_same_ray:
  assumes "crossAt p1 p2 p3 = 0" "dotAt p1 p2 p3 > 0"
  shows "angleAt p1 p2 p3 = 0"
proof -
  have nz: "px p1 \<noteq> px p2 \<or> py p1 \<noteq> py p2" "px p3 \<noteq> px p2 \<or> py p3 \<noteq> py p2"
    using assms(2) by (auto simp: dotAt_def)
  have "\<bar>dotAt p1 p2 p3\<bar> = rayLength p1 p2 * rayLength p3 p2"
    using collinear_dot [of "px p1 - px p2" "py p3 - py p2" "py p1 - py p2" "px p3 - px p2"] assms(1)
    by (simp add: dotAt_def crossAt_def rayLength_def)
  then have e: "rayLength p1 p2 * rayLength p3 p2 = dotAt p1 p2 p3" using assms(2) by simp
  have r: "dotAt p1 p2 p3 / (rayLength p1 p2 * rayLength p3 p2) = 1"
    unfolding e using assms(2) by simp
  have "angleAt p1 p2 p3 = arccos (dotAt p1 p2 p3 / (rayLength p1 p2 * rayLength p3 p2)) * (180 / pi)"
    using angleAt_arccos [OF nz] by (simp only: dotAt_def rayLength_def)
  then show ?thesis unfolding r by simp
qed

subsection \<open>Evaluating the example frames\<close>

lemma slot_frameOf: "slot (frameOf f) i = (if i < 33 then f i else None)"
  by (simp add: slot_def frameOf_def)

lemmas frame_eval = squatFrame_def shoulderFrame_def getKeyLandmarks_def slot_frameOf pt_def xy_def
  calculateAngle_def angleAt_def atan2_def bind_exn_def getProp_def midpoint_def targetAngle_def
  arctan_one arctan_minus Let_def

lemma standing_frame: "squatFrame (getKeyLandmarks standing) =
  Inr \<lparr> kneeAngle = 180, hipAngle = 180, isInBottomPosition = False,
        hasGoodDepth = False, leftValgus = False, rightValgus = False, excessiveLean = False \<rparr>"
  by (simp add: standing_def frame_eval)

lemma shallow_frame: "squatFrame (getKeyLandmarks shallowSquat) =
  Inr \<lparr> kneeAngle = 90, hipAngle = 90, isInBottomPosition = True,
        hasGoodDepth = False, leftValgus = False, rightValgus = False, excessiveLean = False \<rparr>"
  by (simp add: shallowSquat_def frame_eval)

lemma poorSquat_frame: "squatFrame (getKeyLandmarks poorSquat) =
  Inr \<lparr> kneeAngle = 90, hipAngle = 180, isInBottomPosition = True,
        hasGoodDepth = False, leftValgus = True, rightValgus = False, excessiveLean = True \<rparr>"
  by (simp add: poorSquat_def frame_eval)

lemma missingLeftKnee_frame: "squatFrame (getKeyLandmarks missingLeftKnee) = Inl TypeError"
  by (simp add: missingLeftKnee_def standing_def frameOf_def slot_def frame_eval)

lemma armsRaised_frame: "shoulderFrame (getKeyLandmarks armsRaised) =
  Inr \<lparr> avgShoulderAngle = 90, shoulderSymmetry = 0, angleDeviation = 0, isInTargetRange = True,
        isInPosition = True, leftHiking = False, rightHiking = False \<rparr>"
  by (simp add: armsRaised_def frame_eval)


lemma armsDown_frame: "shoulderFrame (getKeyLandmarks armsDown) =
  Inr \<lparr> avgShoulderAngle = 0, shoulderSymmetry = 0, angleDeviation = 90, isInTargetRange = False,
        isInPosition = False, leftHiking = False, rightHiking = False \<rparr>"
  by (simp add: armsDown_def frame_eval)

subsection \<open>Which calls throw\<close>

lemma exn_only: "(e::exn) = TypeError"
  by (cases e) simp

lemma squatFrame_present:
  assumes "\<forall>i \<in> set squatKeypoints. slot f i \<noteq> None"
  shows "\<exists>g. squatFrame (getKeyLandmarks f) = Inr g"
proof -
  from assms obtain a b c d e g h i where
    "slot f 11 = Some a" "slot f 12 = Some b" "slot f 23 = Some c" "slot f 24 = Some d"
    "slot f 25 = Some e" "slot f 26 = Some g" "slot f 27 = Some h" "slot f 28 = Some i"
    by (auto simp: squatKeypoints_def)
  then show ?thesis
    by (simp add: squatFrame_def getKeyLandmarks_def calculateAngle_def getProp_def
        midpoint_def bind_exn_def Let_def)
qed

lemma squatFrame_absent:
  assumes "\<not> (\<forall>i \<in> set squatKeypoints. slot f i \<noteq> None)"
  shows "squatFrame (getKeyLandmarks f) = Inl TypeError"
proof -
  have "\<not> (\<exists>g. squatFrame (getKeyLandmarks f) = Inr g)"
  proof
    assume "\<exists>g. squatFrame (getKeyLandmarks f) = Inr g"
    then have "\<forall>i \<in> set squatKeypoints. slot f i \<noteq> None"
      by (auto simp: squatFrame_def getKeyLandmarks_def calculateAngle_def getProp_def
        midpoint_def bind_exn_def Let_def squatKeypoints_def split: option.splits sum.splits)
    with assms show False by simp
  qed
  then show ?thesis by (cases "squatFrame (getKeyLandmarks f)") (auto simp: exn_only)
qed

lemma shoulderFrame_present:
  assumes "\<forall>i \<in> set shoulderKeypoints. slot f i \<noteq> None"
  shows "\<exists>g. shoulderFrame (getKeyLandmarks f) = Inr g"
proof -
  from assms obtain a b c d e g where
    "slot f 11 = Some a" "slot f 12 = Some b" "slot f 13 = Some c" "slot f 14 = Some d"
    "slot f 23 = Some e" "slot f 24 = Some g"
    by (auto simp: shoulderKeypoints_def)
  then show ?thesis
    by (simp add: shoulderFrame_def getKeyLandmarks_def calculateAngle_def getProp_def
        bind_exn_def Let_def)
qed

lemma shoulderFrame_absent:
  assumes "\<not> (\<forall>i \<in> set shoulderKeypoints. slot f i \<noteq> None)"
  shows "shoulderFrame (getKeyLandmarks f) = Inl TypeError"
proof -
  have "\<not> (\<exists>g. shoulderFrame (getKeyLandmarks f) = Inr g)"
  proof
    assume "\<exists>g. shoulderFrame (getKeyLandmarks f) = Inr g"
    then have "\<forall>i \<in> set shoulderKeypoints. slot f i \<noteq> None"
      by (auto simp: shoulderFrame_def getKeyLandmarks_def calculateAngle_def getProp_def
        bind_exn_def Let_def shoulderKeypoints_def split: option.splits sum.splits)
    with assms show False by simp
  qed
  then show ?thesis by (cases "shoulderFrame (getKeyLandmarks f)") (auto simp: exn_only)
qed

subsection \<open>One call, unfolded\<close>

lemma squatFeedback_score:
  "snd (squatFeedback g fc) =
     100 - (if isInBottomPosition g \<and> \<not> hasGoodDepth g then 15 else 0)
         - (if leftValgus g \<or> rightValgus g then 20 else 0)
         - (if excessiveLean g then 10 else 0)"
  by (simp add: squatFeedback_def Let_def)

lemma shoulderFeedback_score:
  "snd (shoulderFeedback g) =
     100 - (if angleDeviation g > 15 then
              (if avgShoulderAngle g < targetAngle - 15 then 15
               else if avgShoulderAngle g > targetAngle + 15 then 10 else 0)
            else 0)
         - (if shoulderSymmetry g > 15 then 20 else 0)
         - (if leftHiking g \<or> rightHiking g then 10 else 0)"
  by (simp add: shoulderFeedback_def Let_def)

lemma squatFeedback_bounds: "55 \<le> snd (squatFeedback g fc) \<and> snd (squatFeedback g fc) \<le> 100"
  unfolding squatFeedback_score by simp

lemma shoulderFeedback_bounds: "55 \<le> snd (shoulderFeedback g) \<and> snd (shoulderFeedback g) \<le> 100"
  unfolding shoulderFeedback_score by simp

lemma squatCount_frameCount: "frameCount (squatCount s g now) = frameCount s"
  by (simp add: squatCount_def Let_def)

lemma analyzeSquat_Inr:
  assumes "squatFrame (getKeyLandmarks f) = Inr g"
  shows "analyzeSquat s f c now =
     ((squatCount (s\<lparr>frameCount := frameCount s + 1\<rparr>) g now)
         \<lparr>currentScore := max 0 (snd (squatFeedback g (frameCount s + 1)))\<rparr>,
      Inr \<lparr> score = max 0 (snd (squatFeedback g (frameCount s + 1))),
            feedback = rankFeedback (fst (squatFeedback g (frameCount s + 1))),
            out_repCount = repCount (squatCount (s\<lparr>frameCount := frameCount s + 1\<rparr>) g now),
            out_isInPosition = isInBottomPosition g,
            angles = \<lparr> knee = kneeAngle g, hip = hipAngle g, shoulder = 0 \<rparr> \<rparr>)"
  using assms by (simp add: analyzeSquat_def Let_def squatCount_frameCount split: prod.splits)

lemma analyzeSquat_Inl:
  assumes "squatFrame (getKeyLandmarks f) = Inl e"
  shows "analyzeSquat s f c now = (s\<lparr>frameCount := frameCount s + 1\<rparr>, Inl e)"
  using assms by (simp add: analyzeSquat_def Let_def)

lemma analyzeShoulderAbduction_Inr:
  assumes "shoulderFrame (getKeyLandmarks f) = Inr g"
  shows "analyzeShoulderAbduction s f c =
     ((shoulderCount s g)\<lparr>currentScore := max 0 (snd (shoulderFeedback g))\<rparr>,
      Inr \<lparr> score = max 0 (snd (shoulderFeedback g)),
            feedback = rankFeedback (fst (shoulderFeedback g)),
            out_repCount = repCount (shoulderCount s g),
            out_isInPosition = isInPosition g,
            angles = \<lparr> knee = 0, hip = 0, shoulder = avgShoulderAngle g \<rparr> \<rparr>)"
  using assms by (simp add: analyzeShoulderAbduction_def Let_def split: prod.splits)

lemma analyzeShoulderAbduction_Inl:
  assumes "shoulderFrame (getKeyLandmarks f) = Inl e"
  shows "analyzeShoulderAbduction s f c = (s, Inl e)"
  using assms by (simp add: analyzeShoulderAbduction_def Let_def)

lemma insert_by_priority:
  "insert_by (\<lambda>a b. priority b - priority a) m ms = insort_key (\<lambda>m. - priority m) m ms"
  by (induction ms) auto

lemma sort_by_priority:
  "sort_by (\<lambda>a b. priority b - priority a) ms = sort_key (\<lambda>m. - priority m) ms"
  by (induction ms) (simp_all add: sort_by_def insert_by_priority)

lemma sort_by_props:
  "mset (sort_by (\<lambda>a b. priority b - priority a) ms) = mset ms"
  "sorted (map (\<lambda>m. - priority m) (sort_by (\<lambda>a b. priority b - priority a) ms))"
  "filter (\<lambda>m. priority m = k) (sort_by (\<lambda>a b. priority b - priority a) ms) = filter (\<lambda>m. priority m = k) ms"
proof -
  show "mset (sort_by (\<lambda>a b. priority b - priority a) ms) = mset ms"
    by (simp add: sort_by_priority)
  show "sorted (map (\<lambda>m. - priority m) (sort_by (\<lambda>a b. priority b - priority a) ms))"
    by (simp only: sort_by_priority sorted_sort_key)
  have "filter (\<lambda>m. - priority m = - k) (sort_key (\<lambda>m. - priority m) ms) = filter (\<lambda>m. - priority m = - k) ms"
    by (rule sort_key_stable)
  then show "filter (\<lambda>m. priority m = k) (sort_by (\<lambda>a b. priority b - priority a) ms) = filter (\<lambda>m. priority m = k) ms"
    by (simp add: sort_by_priority)
qed

lemma rank_example:
  assumes "priority a = 3" "priority b = 1" "priority c = 4" "priority d = 2"
  shows "rankFeedback [a, b, c, d] = [c, a]"
  using assms by (simp add: rankFeedback_def sort_by_def)

subsection \<open>The squat phases over a sequence of calls\<close>

lemma run_append: "run s (xs @ ys) = run (run s xs) ys"
  by (simp add: run_def)

lemma run_Cons: "run s (x # xs) = run (perform s x) xs"
  by (simp add: run_def)

lemma run_Nil: "run s [] = s"
  by (simp add: run_def)

lemma kneeInE:
  assumes "kneeIn P call"
  obtains f c t g where "call = Squat f c t" "squatFrame (getKeyLandmarks f) = Inr g"
    "P (kneeAngle g)"
  using assms
  by (cases call) (auto simp: kneeAngleOf_def split: sum.splits option.splits)

lemma squatFrame_bottom:
  "squatFrame k = Inr g \<Longrightarrow> isInBottomPosition g = (kneeAngle g < 120) \<and> hasGoodDepth g = (kneeAngle g < 90)"
  by (auto simp: squatFrame_def bind_exn_def Let_def split: sum.splits)

lemma perform_top_from_up:
  assumes "lastPosition s = ''up''" "kneeIn (\<lambda>a. 120 \<le> a) call"
  shows "lastPosition (perform s call) = ''up'' \<and> repCount (perform s call) = repCount s
       \<and> repData (perform s call) = repData s"
proof -
  from assms(2) obtain f c t g where *: "call = Squat f c t"
    "squatFrame (getKeyLandmarks f) = Inr g" "120 \<le> kneeAngle g" by (rule kneeInE)
  then have "\<not> isInBottomPosition g" using squatFrame_bottom by auto
  then show ?thesis using * assms(1) by (simp add: analyzeSquat_Inr squatCount_def)
qed

lemma perform_bottom:
  assumes "lastPosition s = ''up'' \<or> lastPosition s = ''down''" "kneeIn (\<lambda>a. a < 120) call"
  shows "lastPosition (perform s call) = ''down'' \<and> repCount (perform s call) = repCount s
       \<and> repData (perform s call) = repData s"
proof -
  from assms(2) obtain f c t g where *: "call = Squat f c t"
    "squatFrame (getKeyLandmarks f) = Inr g" "kneeAngle g < 120" by (rule kneeInE)
  then have "isInBottomPosition g" using squatFrame_bottom by auto
  then show ?thesis using * assms(1) by (auto simp add: analyzeSquat_Inr squatCount_def)
qed

lemma perform_top_from_down:
  assumes "lastPosition s = ''down''" "kneeIn (\<lambda>a. 120 \<le> a) call"
  shows "lastPosition (perform s call) = ''up'' \<and> repCount (perform s call) = repCount s + 1
       \<and> (\<exists>rep. repData (perform s call) = repData s @ [rep] \<and> repIndex rep = repCount s + 1)"
proof -
  from assms(2) obtain f c t g where *: "call = Squat f c t"
    "squatFrame (getKeyLandmarks f) = Inr g" "120 \<le> kneeAngle g" by (rule kneeInE)
  then have "\<not> isInBottomPosition g" using squatFrame_bottom by auto
  then show ?thesis using * assms(1) by (simp add: analyzeSquat_Inr squatCount_def squatRep_def Let_def)
qed

lemma run_top_from_up:
  assumes "lastPosition s = ''up''" "list_all (kneeIn (\<lambda>a. 120 \<le> a)) calls"
  shows "lastPosition (run s calls) = ''up'' \<and> repCount (run s calls) = repCount s
       \<and> repData (run s calls) = repData s"
  using assms
proof (induction calls arbitrary: s)
  case Nil
  then show ?case by (simp add: run_Nil)
next
  case (Cons a calls)
  from Cons.prems have a: "kneeIn (\<lambda>a. 120 \<le> a) a" and r: "list_all (kneeIn (\<lambda>a. 120 \<le> a)) calls"
    by simp_all
  note p = perform_top_from_up [OF Cons.prems(1) a]
  from Cons.IH [of "perform s a"] p r show ?case by (simp add: run_Cons)
qed

lemma run_bottom:
  assumes "lastPosition s = ''up'' \<or> lastPosition s = ''down''" "list_all (kneeIn (\<lambda>a. a < 120)) calls"
    "calls \<noteq> []"
  shows "lastPosition (run s calls) = ''down'' \<and> repCount (run s calls) = repCount s
       \<and> repData (run s calls) = repData s"
  using assms
proof (induction calls arbitrary: s)
  case Nil
  then show ?case by simp
next
  case (Cons a calls)
  from Cons.prems have a: "kneeIn (\<lambda>a. a < 120) a" and r: "list_all (kneeIn (\<lambda>a. a < 120)) calls"
    by simp_all
  note p = perform_bottom [OF Cons.prems(1) a]
  show ?case
  proof (cases "calls = []")
    case True
    then show ?thesis using p by (simp add: run_Cons run_Nil)
  next
    case False
    from Cons.IH [of "perform s a"] p r False show ?thesis by (simp add: run_Cons)
  qed
qed

subsection \<open>The shoulder phases and the score over a sequence of calls\<close>
















lemma perform_score:
  assumes "0 \<le> currentScore s \<and> currentScore s \<le> 100"
  shows "0 \<le> currentScore (perform s call) \<and> currentScore (perform s call) \<le> 100"
proof (cases call)
  case (Squat f c t)
  show ?thesis
  proof (cases "squatFrame (getKeyLandmarks f)")
    case (Inl e)
    then show ?thesis using assms Squat by (simp add: analyzeSquat_Inl)
  next
    case (Inr g)
    then show ?thesis using Squat squatFeedback_bounds [of g "frameCount s + 1"]
      by (simp add: analyzeSquat_Inr)
  qed
next
  case (ShoulderAbduction f c)
  show ?thesis
  proof (cases "shoulderFrame (getKeyLandmarks f)")
    case (Inl e)
    then show ?thesis using assms ShoulderAbduction by (simp add: analyzeShoulderAbduction_Inl)
  next
    case (Inr g)
    then show ?thesis using ShoulderAbduction shoulderFeedback_bounds [of g]
      by (simp add: analyzeShoulderAbduction_Inr)
  qed
next
  case Reset
  then show ?thesis by (simp add: reset_def)
qed

lemma run_score:
  assumes "0 \<le> currentScore s \<and> currentScore s \<le> 100"
  shows "0 \<le> currentScore (run s calls) \<and> currentScore (run s calls) \<le> 100"
  using assms
proof (induction calls arbitrary: s)
  case Nil
  then show ?case by (simp add: run_Nil)
next
  case (Cons a calls)
  from Cons.IH [OF perform_score [OF Cons.prems]] show ?case by (simp add: run_Cons)
qed

subsection \<open>The slots of the example frames\<close>

lemma standing_slots: "slot standing i = None \<longleftrightarrow> 33 \<le> i"
  by (auto simp: standing_def slot_frameOf pt_def xy_def)

lemma missingLeftKnee_slots: "slot missingLeftKnee i = None \<longleftrightarrow> 33 \<le> i \<or> i = 25"
  by (auto simp: missingLeftKnee_def standing_def slot_def frameOf_def pt_def xy_def nth_list_update)

subsection \<open>Further facts used by the claims\<close>

lemma run1: "run s [x] = perform s x"
  by (simp add: run_def)

lemma after_shallow:
  "run newAnalyzer [Squat shallowSquat c t] =
     \<lparr> repCount = 0, currentScore = 85, lastPosition = ''down'', repData = [], frameCount = 1 \<rparr>"
  by (simp add: run1 analyzeSquat_Inr [OF shallow_frame] squatCount_def squatFeedback_score
      newAnalyzer_def)

lemma kneeAngleOf_standing: "kneeAngleOf standing = Some 180"
  by (simp add: kneeAngleOf_def standing_frame)

lemma kneeAngleOf_shallowSquat: "kneeAngleOf shallowSquat = Some 90"
  by (simp add: kneeAngleOf_def shallow_frame)

lemma rayLength_eq_0: "rayLength p q = 0 \<longleftrightarrow> px p = px q \<and> py p = py q"
  by (auto simp: rayLength_def sum_power2_eq_zero_iff)

lemma analyzeSquat_out:
  assumes "snd (analyzeSquat s f c now) = Inr out"
  obtains g where "squatFrame (getKeyLandmarks f) = Inr g"
    "score out = max 0 (snd (squatFeedback g (frameCount s + 1)))"
proof (cases "squatFrame (getKeyLandmarks f)")
  case (Inl e)
  with assms show ?thesis by (simp add: analyzeSquat_Inl)
next
  case (Inr g)
  with assms that [of g] show ?thesis by (auto simp: analyzeSquat_Inr)
qed

lemma analyzeShoulderAbduction_out:
  assumes "snd (analyzeShoulderAbduction s f c) = Inr out"
  obtains g where "shoulderFrame (getKeyLandmarks f) = Inr g"
    "score out = max 0 (snd (shoulderFeedback g))"
proof (cases "shoulderFrame (getKeyLandmarks f)")
  case (Inl e)
  with assms show ?thesis by (simp add: analyzeShoulderAbduction_Inl)
next
  case (Inr g)
  with assms that [of g] show ?thesis by (auto simp: analyzeShoulderAbduction_Inr)
qed

lemma after_poorSquat:
  "analyzeSquat newAnalyzer poorSquat c t =
     (\<lparr> repCount = 0, currentScore = 55, lastPosition = ''down'', repData = [], frameCount = 1 \<rparr>,
      Inr \<lparr> score = 55,
            feedback = [\<lparr> type = Error,
                           message = ''Push your knees out - don't let them cave in'',
                           priority = 4 \<rparr>,
                        \<lparr> type = Warning,
                           message = ''Go a bit deeper - aim for thighs parallel to floor'',
                           priority = 3 \<rparr>],
            out_repCount = 0, out_isInPosition = True,
            angles = \<lparr> knee = 90, hip = 180, shoulder = 0 \<rparr> \<rparr>)"
  by (simp add: analyzeSquat_Inr [OF poorSquat_frame] squatCount_def squatFeedback_def
      rankFeedback_def sort_by_def newAnalyzer_def Let_def)

lemma after_armsDown:
  "analyzeShoulderAbduction newAnalyzer armsDown c =
     (\<lparr> repCount = 1, currentScore = 85, lastPosition = ''down'', repData = [], frameCount = 0 \<rparr>,
      Inr \<lparr> score = 85,
            feedback = [\<lparr> type = Warning,
                           message = ''Raise your arms higher - aim for 90 degrees'',
                           priority = 3 \<rparr>],
            out_repCount = 1, out_isInPosition = False,
            angles = \<lparr> knee = 0, hip = 0, shoulder = 0 \<rparr> \<rparr>)"
  by (simp add: analyzeShoulderAbduction_Inr [OF armsDown_frame] shoulderCount_def
      shoulderFeedback_def rankFeedback_def sort_by_def newAnalyzer_def targetAngle_def Let_def)

text \<open>
  The record of a counted squat, for every state and frame: its score is the score
  stored before the call, and since a squat is only counted at a knee angle of 120 or
  more, where the depth is never good, it is always flagged \<^verbatim>\<open>shallow_squat\<close>.
\<close>

lemma counted_squat_record:
  assumes g: "squatFrame (getKeyLandmarks f) = Inr g"
    and down: "lastPosition s = ''down''" and top: "\<not> isInBottomPosition g"
  shows "\<exists>rep. repData (fst (analyzeSquat s f c now)) = repData s @ [rep] \<and>
           rep_score rep = currentScore s \<and> ''shallow_squat'' \<in> set (flags rep)"
    and "currentScore (fst (analyzeSquat s f c now)) =
           max 0 (snd (squatFeedback g (frameCount s + 1)))"
proof -
  from squatFrame_bottom [OF g] top have "\<not> hasGoodDepth g" by auto
  then show "\<exists>rep. repData (fst (analyzeSquat s f c now)) = repData s @ [rep] \<and>
           rep_score rep = currentScore s \<and> ''shallow_squat'' \<in> set (flags rep)"
    using down top by (simp add: analyzeSquat_Inr [OF g] squatCount_def squatRep_def Let_def)
  show "currentScore (fst (analyzeSquat s f c now)) =
           max 0 (snd (squatFeedback g (frameCount s + 1)))"
    by (simp add: analyzeSquat_Inr [OF g])
qed

section \<open>The claims\<close>

subsection \<open>C1: frames with an absent key point\<close>

text \<open>
  C1, as amended. A call of \<^verbatim>\<open>analyzeSquat\<close> returns a metrics snapshot exactly when
  the eight key points it reads (shoulders, hips, knees, ankles) are all present, and a
  call of \<^verbatim>\<open>analyzeShoulderAbduction\<close> exactly when its six (shoulders, elbows, hips)
  are. When one of them is absent no check is skipped: the call throws a
  \<^verbatim>\<open>TypeError\<close> and returns no snapshot; \<^verbatim>\<open>analyzeSquat\<close> has then counted the frame
  and changed nothing else, \<^verbatim>\<open>analyzeShoulderAbduction\<close> has changed nothing.
\<close>

theorem analyze_returns_iff_keypoints_present:
  "(if \<forall>i \<in> set squatKeypoints. slot f i \<noteq> None
    then \<exists>out. snd (analyzeSquat s f c now) = Inr out
    else analyzeSquat s f c now = (s\<lparr>frameCount := frameCount s + 1\<rparr>, Inl TypeError)) \<and>
   (if \<forall>i \<in> set shoulderKeypoints. slot f i \<noteq> None
    then \<exists>out. snd (analyzeShoulderAbduction s f c') = Inr out
    else analyzeShoulderAbduction s f c' = (s, Inl TypeError))"
proof (intro conjI)
  show "if \<forall>i \<in> set squatKeypoints. slot f i \<noteq> None
    then \<exists>out. snd (analyzeSquat s f c now) = Inr out
    else analyzeSquat s f c now = (s\<lparr>frameCount := frameCount s + 1\<rparr>, Inl TypeError)"
  proof (cases "\<forall>i \<in> set squatKeypoints. slot f i \<noteq> None")
    case True
    from squatFrame_present [OF True] obtain g where "squatFrame (getKeyLandmarks f) = Inr g" ..
    then show ?thesis using True by (simp add: analyzeSquat_Inr)
  next
    case False
    from squatFrame_absent [OF False] show ?thesis using False by (simp add: analyzeSquat_Inl)
  qed
  show "if \<forall>i \<in> set shoulderKeypoints. slot f i \<noteq> None
    then \<exists>out. snd (analyzeShoulderAbduction s f c') = Inr out
    else analyzeShoulderAbduction s f c' = (s, Inl TypeError)"
  proof (cases "\<forall>i \<in> set shoulderKeypoints. slot f i \<noteq> None")
    case True
    from shoulderFrame_present [OF True]
    obtain g where "shoulderFrame (getKeyLandmarks f) = Inr g" ..
    then show ?thesis using True by (simp add: analyzeShoulderAbduction_Inr)
  next
    case False
    from shoulderFrame_absent [OF False] show ?thesis using False
      by (simp add: analyzeShoulderAbduction_Inl)
  qed
qed

text \<open>
  The theorem at the upright frame, where every key point is present and both policies
  return, and at the same frame without its left knee, where \<^verbatim>\<open>analyzeSquat\<close> throws.
\<close>

theorem analyze_returns_iff_keypoints_present_witness:
  "list_all (\<lambda>i. slot standing i \<noteq> None) squatKeypoints \<and>
   (\<exists>out. snd (analyzeSquat newAnalyzer standing squatConfig 0) = Inr out) \<and>
   list_all (\<lambda>i. slot standing i \<noteq> None) shoulderKeypoints \<and>
   (\<exists>out. snd (analyzeShoulderAbduction newAnalyzer standing shoulderAbductionConfig) = Inr out) \<and>
   \<not> list_all (\<lambda>i. slot missingLeftKnee i \<noteq> None) squatKeypoints \<and>
   analyzeSquat newAnalyzer missingLeftKnee squatConfig 0 =
     (newAnalyzer\<lparr>frameCount := frameCount newAnalyzer + 1\<rparr>, Inl TypeError)"
  using analyze_returns_iff_keypoints_present
      [where f = standing and s = newAnalyzer and c = squatConfig and now = 0
         and c' = shoulderAbductionConfig]
    analyze_returns_iff_keypoints_present
      [where f = missingLeftKnee and s = newAnalyzer and c = squatConfig and now = 0
         and c' = shoulderAbductionConfig]
  by (simp add: squatKeypoints_def shoulderKeypoints_def standing_slots missingLeftKnee_slots)

text \<open>
  C1 as stated fails: on a fresh analyzer, the upright frame whose left knee is absent
  makes \<^verbatim>\<open>analyzeSquat\<close> throw instead of returning a snapshot without the knee checks.
\<close>

theorem missing_keypoint_throws:
  "analyzeSquat newAnalyzer missingLeftKnee squatConfig 0 =
     (newAnalyzer\<lparr>frameCount := 1\<rparr>, Inl TypeError)"
  by (simp add: analyzeSquat_Inl [OF missingLeftKnee_frame] newAnalyzer_def)

subsection \<open>C2: the record of a counted squat\<close>

text \<open>
  C2 does not hold of the score. On a fresh analyzer, a frame at the bottom (knee angle
  90, score 85) followed by an upright frame counts one repetition. The record appended
  by the second call carries the angles, the flags and the time of the upright frame,
  but the score 85 that the first call stored; the score of the upright frame itself,
  as the same call returns it and then stores it, is 100.
\<close>

theorem rep_score_is_previous_score:
  "repData (run newAnalyzer [Squat shallowSquat squatConfig 1000, Squat standing squatConfig 1033]) =
     [\<lparr> repIndex = 1, rep_angles = \<lparr> knee = 180, hip = 180, shoulder = 0 \<rparr>,
        flags = [''shallow_squat''], rep_score = 85, timestamp = 1033 \<rparr>] \<and>
   snd (analyzeSquat (run newAnalyzer [Squat shallowSquat squatConfig 1000]) standing squatConfig 1033) =
     Inr \<lparr> score = 100, feedback = [], out_repCount = 1, out_isInPosition = False,
           angles = \<lparr> knee = 180, hip = 180, shoulder = 0 \<rparr> \<rparr> \<and>
   currentScore (run newAnalyzer [Squat shallowSquat squatConfig 1000]) = 85 \<and>
   currentScore (run newAnalyzer [Squat shallowSquat squatConfig 1000,
                                  Squat standing squatConfig 1033]) = 100"
proof -
  have "run newAnalyzer [Squat shallowSquat squatConfig 1000, Squat standing squatConfig 1033] =
      perform (run newAnalyzer [Squat shallowSquat squatConfig 1000]) (Squat standing squatConfig 1033)"
    by (simp add: run_def)
  then show ?thesis
    by (simp add: after_shallow analyzeSquat_Inr [OF standing_frame] squatCount_def
        squatRep_def squatFeedback_def rankFeedback_def sort_by_def Let_def)
qed

subsection \<open>C3: one record per counted repetition\<close>

text \<open>
  C3 does not hold of \<^verbatim>\<open>analyzeShoulderAbduction\<close>: on a fresh analyzer, a frame with
  the arms raised to 90 degrees followed by a frame with the arms at the sides counts
  one repetition, and the rep log stays empty.
\<close>

theorem shoulder_rep_not_logged:
  "repCount (run newAnalyzer [ShoulderAbduction armsRaised shoulderAbductionConfig,
                              ShoulderAbduction armsDown shoulderAbductionConfig]) = 1 \<and>
   getRepData (run newAnalyzer [ShoulderAbduction armsRaised shoulderAbductionConfig,
                                ShoulderAbduction armsDown shoulderAbductionConfig]) = []"
  by (simp add: run_def getRepData_def analyzeShoulderAbduction_Inr [OF armsRaised_frame]
      analyzeShoulderAbduction_Inr [OF armsDown_frame] shoulderCount_def newAnalyzer_def Let_def)

subsection \<open>C4: one squat, one repetition\<close>

text \<open>
  C4. From any state whose phase is "up", a sequence of \<^verbatim>\<open>analyzeSquat\<close> calls whose
  knee angle is at least 120 degrees (any number of frames), then below 120 (at least
  one frame), then at least 120 again (at least one frame) increments \<^verbatim>\<open>repCount\<close> by
  exactly 1 and appends exactly one \<^verbatim>\<open>RepData\<close> entry, whose \<^verbatim>\<open>repIndex\<close> is the new
  \<^verbatim>\<open>repCount\<close>.
\<close>

theorem squat_rep_cycle:
  assumes up: "lastPosition s = ''up''"
    and us: "list_all (kneeIn (\<lambda>a. 120 \<le> a)) us"
    and ds: "list_all (kneeIn (\<lambda>a. a < 120)) ds" "ds \<noteq> []"
    and vs: "list_all (kneeIn (\<lambda>a. 120 \<le> a)) vs" "vs \<noteq> []"
  shows "repCount (run s (us @ ds @ vs)) = repCount s + 1 \<and>
         (\<exists>rep. repData (run s (us @ ds @ vs)) = repData s @ [rep] \<and>
                repIndex rep = repCount (run s (us @ ds @ vs)))"
proof -
  let ?s1 = "run s us"
  let ?s2 = "run ?s1 ds"
  from vs obtain v vs' where v: "vs = v # vs'" by (cases vs) auto
  let ?s3 = "perform ?s2 v"
  have 1: "lastPosition ?s1 = ''up'' \<and> repCount ?s1 = repCount s \<and> repData ?s1 = repData s"
    by (rule run_top_from_up [OF up us])
  then have 2: "lastPosition ?s2 = ''down'' \<and> repCount ?s2 = repCount ?s1 \<and> repData ?s2 = repData ?s1"
    by (intro run_bottom ds) simp
  have kv: "kneeIn (\<lambda>a. 120 \<le> a) v" and kvs: "list_all (kneeIn (\<lambda>a. 120 \<le> a)) vs'"
    using vs v by simp_all
  from 2 have 3: "lastPosition ?s3 = ''up'' \<and> repCount ?s3 = repCount ?s2 + 1
       \<and> (\<exists>rep. repData ?s3 = repData ?s2 @ [rep] \<and> repIndex rep = repCount ?s2 + 1)"
    by (intro perform_top_from_down kv) simp
  then have 4: "lastPosition (run ?s3 vs') = ''up'' \<and> repCount (run ?s3 vs') = repCount ?s3
       \<and> repData (run ?s3 vs') = repData ?s3"
    by (intro run_top_from_up kvs) simp
  have "run s (us @ ds @ vs) = run ?s3 vs'" by (simp add: run_append run_Cons v)
  with 1 2 3 4 show ?thesis by auto
qed

text \<open>
  The theorem on a fresh analyzer, for the frames upright, thighs horizontal, upright.
\<close>

theorem squat_rep_cycle_witness:
  "lastPosition newAnalyzer = ''up'' \<and>
   kneeAngleOf standing = Some 180 \<and> kneeAngleOf shallowSquat = Some 90 \<and>
   repCount (run newAnalyzer [Squat standing squatConfig 1000, Squat shallowSquat squatConfig 1033,
                              Squat standing squatConfig 1066]) = repCount newAnalyzer + 1 \<and>
   (\<exists>rep. repData (run newAnalyzer [Squat standing squatConfig 1000,
                Squat shallowSquat squatConfig 1033, Squat standing squatConfig 1066]) =
              repData newAnalyzer @ [rep] \<and>
          repIndex rep = repCount (run newAnalyzer [Squat standing squatConfig 1000,
                Squat shallowSquat squatConfig 1033, Squat standing squatConfig 1066]))"
  using squat_rep_cycle [of newAnalyzer "[Squat standing squatConfig 1000]"
      "[Squat shallowSquat squatConfig 1033]" "[Squat standing squatConfig 1066]"]
  by (auto simp: kneeAngleOf_standing kneeAngleOf_shallowSquat newAnalyzer_def)

subsection \<open>C5: the phases of the shoulder abduction\<close>




subsection \<open>C6: the angle at a vertex\<close>

text \<open>
  C6. \<^verbatim>\<open>calculateAngle(p1, p2, p3)\<close> on three present points returns a value in
  \<open>[0, 180]\<close>: the absolute difference of the two directions in degrees, replaced by
  360 minus it when it is above 180. When neither ray is degenerate it is the unsigned angle between the rays
  from \<open>p2\<close> to \<open>p1\<close> and from \<open>p2\<close> to \<open>p3\<close>, in degrees: the arc cosine of their
  normalised scalar product. It is 180 for collinear points with \<open>p1\<close> and \<open>p3\<close> on
  opposite sides of \<open>p2\<close>, 0 when they lie on the same ray, and 90 for \<open>p1 = (1,0)\<close>,
  \<open>p2 = (0,0)\<close>, \<open>p3 = (0,1)\<close>. Only \<open>x\<close> and \<open>y\<close> are used. (Numbers are reals here.)
\<close>

theorem calculateAngle_unsigned_angle:
  "calculateAngle (Some p1) (Some p2) (Some p3) = Inr (angleAt p1 p2 p3) \<and>
   0 \<le> angleAt p1 p2 p3 \<and> angleAt p1 p2 p3 \<le> 180 \<and>
   (let raw = \<bar>(atan2 (py p3 - py p2) (px p3 - px p2) -
                 atan2 (py p1 - py p2) (px p1 - px p2)) * (180 / pi)\<bar>
    in angleAt p1 p2 p3 = (if raw > 180 then 360 - raw else raw)) \<and>
   (rayLength p1 p2 \<noteq> 0 \<and> rayLength p3 p2 \<noteq> 0 \<longrightarrow>
      angleAt p1 p2 p3 =
        arccos (dotAt p1 p2 p3 / (rayLength p1 p2 * rayLength p3 p2)) * (180 / pi)) \<and>
   (crossAt p1 p2 p3 = 0 \<and> dotAt p1 p2 p3 < 0 \<longrightarrow> angleAt p1 p2 p3 = 180) \<and>
   (crossAt p1 p2 p3 = 0 \<and> dotAt p1 p2 p3 > 0 \<longrightarrow> angleAt p1 p2 p3 = 0) \<and>
   (px p1 = 1 \<and> py p1 = 0 \<and> px p2 = 0 \<and> py p2 = 0 \<and> px p3 = 0 \<and> py p3 = 1 \<longrightarrow>
      angleAt p1 p2 p3 = 90) \<and>
   (px q1 = px p1 \<and> py q1 = py p1 \<and> px q2 = px p2 \<and> py q2 = py p2 \<and>
    px q3 = px p3 \<and> py q3 = py p3 \<longrightarrow>
      calculateAngle (Some q1) (Some q2) (Some q3) = calculateAngle (Some p1) (Some p2) (Some p3))"
proof (intro conjI impI)
  show "calculateAngle (Some p1) (Some p2) (Some p3) = Inr (angleAt p1 p2 p3)"
    by (simp add: calculateAngle_def)
  show "0 \<le> angleAt p1 p2 p3" "angleAt p1 p2 p3 \<le> 180"
    using angleAt_range [of p1 p2 p3] by simp_all
  show "let raw = \<bar>(atan2 (py p3 - py p2) (px p3 - px p2) -
                 atan2 (py p1 - py p2) (px p1 - px p2)) * (180 / pi)\<bar>
    in angleAt p1 p2 p3 = (if raw > 180 then 360 - raw else raw)"
    by (simp add: angleAt_def Let_def)
next
  assume "rayLength p1 p2 \<noteq> 0 \<and> rayLength p3 p2 \<noteq> 0"
  then have "px p1 \<noteq> px p2 \<or> py p1 \<noteq> py p2" "px p3 \<noteq> px p2 \<or> py p3 \<noteq> py p2"
    by (auto simp: rayLength_eq_0)
  from angleAt_arccos [OF this]
  show "angleAt p1 p2 p3 =
      arccos (dotAt p1 p2 p3 / (rayLength p1 p2 * rayLength p3 p2)) * (180 / pi)"
    by (simp only: dotAt_def rayLength_def)
next
  assume "crossAt p1 p2 p3 = 0 \<and> dotAt p1 p2 p3 < 0"
  then show "angleAt p1 p2 p3 = 180" by (simp add: angleAt_opposite)
next
  assume "crossAt p1 p2 p3 = 0 \<and> dotAt p1 p2 p3 > 0"
  then show "angleAt p1 p2 p3 = 0" by (simp add: angleAt_same_ray)
next
  assume "px p1 = 1 \<and> py p1 = 0 \<and> px p2 = 0 \<and> py p2 = 0 \<and> px p3 = 0 \<and> py p3 = 1"
  then show "angleAt p1 p2 p3 = 90" by (simp add: angleAt_def atan2_def)
next
  assume "px q1 = px p1 \<and> py q1 = py p1 \<and> px q2 = px p2 \<and> py q2 = py p2 \<and>
    px q3 = px p3 \<and> py q3 = py p3"
  then show "calculateAngle (Some q1) (Some q2) (Some q3) =
      calculateAngle (Some p1) (Some p2) (Some p3)"
    by (simp add: calculateAngle_def angleAt_def)
qed

text \<open>
  The theorem at a right angle, at two opposite rays, at two equal rays, at a right angle
  whose raw difference is 270 degrees, and at a right angle whose first point has
  another depth and a visibility.
\<close>

theorem calculateAngle_unsigned_angle_witness:
  "calculateAngle (Some (xy 1 0)) (Some (xy 0 0)) (Some (xy 0 1)) = Inr 90 \<and>
   calculateAngle (Some (xy 1 0)) (Some (xy 0 0)) (Some (xy (- 2) 0)) = Inr 180 \<and>
   calculateAngle (Some (xy 1 1)) (Some (xy 0 0)) (Some (xy 3 3)) = Inr 0 \<and>
   calculateAngle (Some (xy (- 1) (- 1))) (Some (xy 0 0)) (Some (xy (- 1) 1)) = Inr 90 \<and>
   calculateAngle (Some \<lparr> px = 1, py = 0, pz = 7, visibility = Some 1 \<rparr>) (Some (xy 0 0))
     (Some (xy 0 1)) = Inr 90"
  using calculateAngle_unsigned_angle [of "xy 1 0" "xy 0 0" "xy 0 1"
      "\<lparr> px = 1, py = 0, pz = 7, visibility = Some 1 \<rparr>" "xy 0 0" "xy 0 1"]
    calculateAngle_unsigned_angle [of "xy 1 0" "xy 0 0" "xy (- 2) 0" "xy 1 0" "xy 0 0" "xy (- 2) 0"]
    calculateAngle_unsigned_angle [of "xy 1 1" "xy 0 0" "xy 3 3" "xy 1 1" "xy 0 0" "xy 3 3"]
    calculateAngle_unsigned_angle [of "xy (- 1) (- 1)" "xy 0 0" "xy (- 1) 1"
      "xy (- 1) (- 1)" "xy 0 0" "xy (- 1) 1"]
  by (simp add: xy_def crossAt_def dotAt_def atan2_def arctan_one arctan_minus Let_def)

subsection \<open>C7: the two messages of highest priority\<close>

text \<open>
  C7. The feedback list returned by \<^verbatim>\<open>analyzeSquat\<close> and by
  \<^verbatim>\<open>analyzeShoulderAbduction\<close> is the ranking of the messages generated for the frame:
  the first two elements of a permutation of them that is in descending order of
  priority and keeps messages of equal priority in their order of insertion. Messages
  of priorities 3, 1, 4, 2 are ranked as the one of priority 4, then the one of
  priority 3.
\<close>

theorem feedback_ranked_top_two:
  "(squatFrame (getKeyLandmarks f) = Inr g \<longrightarrow>
      (\<exists>out. snd (analyzeSquat s f c now) = Inr out \<and>
         feedback out = rankFeedback (fst (squatFeedback g (frameCount s + 1))))) \<and>
   (shoulderFrame (getKeyLandmarks f') = Inr h \<longrightarrow>
      (\<exists>out. snd (analyzeShoulderAbduction s f' c') = Inr out \<and>
         feedback out = rankFeedback (fst (shoulderFeedback h)))) \<and>
   (\<exists>ranked. rankFeedback fb = take 2 ranked \<and> mset ranked = mset fb \<and>
      sorted_wrt (\<lambda>a b. priority a \<ge> priority b) ranked \<and>
      (\<forall>k. filter (\<lambda>m. priority m = k) ranked = filter (\<lambda>m. priority m = k) fb)) \<and>
   (priority m1 = 3 \<and> priority m2 = 1 \<and> priority m3 = 4 \<and> priority m4 = 2 \<longrightarrow>
      rankFeedback [m1, m2, m3, m4] = [m3, m1])"
proof (intro conjI impI)
  assume "squatFrame (getKeyLandmarks f) = Inr g"
  then show "\<exists>out. snd (analyzeSquat s f c now) = Inr out \<and>
         feedback out = rankFeedback (fst (squatFeedback g (frameCount s + 1)))"
    by (simp add: analyzeSquat_Inr)
next
  assume "shoulderFrame (getKeyLandmarks f') = Inr h"
  then show "\<exists>out. snd (analyzeShoulderAbduction s f' c') = Inr out \<and>
         feedback out = rankFeedback (fst (shoulderFeedback h))"
    by (simp add: analyzeShoulderAbduction_Inr)
next
  let ?r = "sort_by (\<lambda>a b. priority b - priority a) fb"
  have "sorted (map (\<lambda>m. - priority m) ?r)" by (rule sort_by_props)
  then have "sorted_wrt (\<lambda>a b. priority a \<ge> priority b) ?r"
    by (simp add: sorted_map)
  then have "rankFeedback fb = take 2 ?r \<and> mset ?r = mset fb \<and>
      sorted_wrt (\<lambda>a b. priority a \<ge> priority b) ?r \<and>
      (\<forall>k. filter (\<lambda>m. priority m = k) ?r = filter (\<lambda>m. priority m = k) fb)"
    by (simp add: rankFeedback_def sort_by_props)
  then show "\<exists>ranked. rankFeedback fb = take 2 ranked \<and> mset ranked = mset fb \<and>
      sorted_wrt (\<lambda>a b. priority a \<ge> priority b) ranked \<and>
      (\<forall>k. filter (\<lambda>m. priority m = k) ranked = filter (\<lambda>m. priority m = k) fb)" ..
next
  assume "priority m1 = 3 \<and> priority m2 = 1 \<and> priority m3 = 4 \<and> priority m4 = 2"
  then show "rankFeedback [m1, m2, m3, m4] = [m3, m1]" by (simp add: rank_example)
qed

text \<open>
  The theorem at a squat frame that generates the messages of priorities 3, 4, 2 and
  returns those of priorities 4, 3; at a shoulder frame with one message; and at four
  messages of priorities 3, 1, 4, 2.
\<close>

theorem feedback_ranked_top_two_witness:
  "(\<exists>out. snd (analyzeSquat newAnalyzer poorSquat squatConfig 1000) = Inr out \<and>
      feedback out = rankFeedback (fst (squatFeedback \<lparr> kneeAngle = 90, hipAngle = 180,
        isInBottomPosition = True, hasGoodDepth = False, leftValgus = True,
        rightValgus = False, excessiveLean = True \<rparr> (frameCount newAnalyzer + 1))) \<and>
      map priority (fst (squatFeedback \<lparr> kneeAngle = 90, hipAngle = 180,
        isInBottomPosition = True, hasGoodDepth = False, leftValgus = True,
        rightValgus = False, excessiveLean = True \<rparr> (frameCount newAnalyzer + 1))) = [3, 4, 2] \<and>
      map priority (feedback out) = [4, 3]) \<and>
   (\<exists>out. snd (analyzeShoulderAbduction newAnalyzer armsDown shoulderAbductionConfig) = Inr out \<and>
      map priority (feedback out) = [3]) \<and>
   rankFeedback [\<lparr> type = Warning, message = ''c'', priority = 3 \<rparr>,
                 \<lparr> type = Success, message = ''a'', priority = 1 \<rparr>,
                 \<lparr> type = Error, message = ''d'', priority = 4 \<rparr>,
                 \<lparr> type = Warning, message = ''b'', priority = 2 \<rparr>] =
     [\<lparr> type = Error, message = ''d'', priority = 4 \<rparr>,
      \<lparr> type = Warning, message = ''c'', priority = 3 \<rparr>]"
proof -
  let ?g = "\<lparr> kneeAngle = 90, hipAngle = 180, isInBottomPosition = True,
      hasGoodDepth = False, leftValgus = True, rightValgus = False, excessiveLean = True \<rparr>"
  let ?h = "\<lparr> avgShoulderAngle = 0, shoulderSymmetry = 0, angleDeviation = 90,
      isInTargetRange = False, isInPosition = False, leftHiking = False,
      rightHiking = False \<rparr>"
  have gen: "map priority (fst (squatFeedback ?g (frameCount newAnalyzer + 1))) = [3, 4, 2]"
    by (simp add: squatFeedback_def newAnalyzer_def Let_def)
  note t = feedback_ranked_top_two [where f = poorSquat and s = newAnalyzer and c = squatConfig
      and now = 1000 and f' = armsDown and c' = shoulderAbductionConfig and fb = "[]"
      and g = ?g and h = ?h
      and ?m1.0 = "\<lparr> type = Warning, message = ''c'', priority = 3 \<rparr>"
      and ?m2.0 = "\<lparr> type = Success, message = ''a'', priority = 1 \<rparr>"
      and ?m3.0 = "\<lparr> type = Error, message = ''d'', priority = 4 \<rparr>"
      and ?m4.0 = "\<lparr> type = Warning, message = ''b'', priority = 2 \<rparr>"]
  from t have sq: "\<exists>out. snd (analyzeSquat newAnalyzer poorSquat squatConfig 1000) = Inr out \<and>
      feedback out = rankFeedback (fst (squatFeedback ?g (frameCount newAnalyzer + 1)))"
    by (simp add: poorSquat_frame)
  from t have sh: "\<exists>out. snd (analyzeShoulderAbduction newAnalyzer armsDown
      shoulderAbductionConfig) = Inr out \<and> feedback out = rankFeedback (fst (shoulderFeedback ?h))"
    by (simp add: armsDown_frame)
  from t have ex: "rankFeedback [\<lparr> type = Warning, message = ''c'', priority = 3 \<rparr>,
                 \<lparr> type = Success, message = ''a'', priority = 1 \<rparr>,
                 \<lparr> type = Error, message = ''d'', priority = 4 \<rparr>,
                 \<lparr> type = Warning, message = ''b'', priority = 2 \<rparr>] =
     [\<lparr> type = Error, message = ''d'', priority = 4 \<rparr>,
      \<lparr> type = Warning, message = ''c'', priority = 3 \<rparr>]"
    by simp
  from sq obtain out where o: "snd (analyzeSquat newAnalyzer poorSquat squatConfig 1000) = Inr out"
    "feedback out = rankFeedback (fst (squatFeedback ?g (frameCount newAnalyzer + 1)))"
    by blast
  from o(1) have p: "map priority (feedback out) = [4, 3]"
    by (auto simp: after_poorSquat)
  from sh obtain out' where o': "snd (analyzeShoulderAbduction newAnalyzer armsDown
      shoulderAbductionConfig) = Inr out'"
    by blast
  then have p': "map priority (feedback out') = [3]"
    by (auto simp: after_armsDown)
  have 1: "\<exists>out. snd (analyzeSquat newAnalyzer poorSquat squatConfig 1000) = Inr out \<and>
      feedback out = rankFeedback (fst (squatFeedback ?g (frameCount newAnalyzer + 1))) \<and>
      map priority (fst (squatFeedback ?g (frameCount newAnalyzer + 1))) = [3, 4, 2] \<and>
      map priority (feedback out) = [4, 3]"
    by (rule exI [of _ out]) (insert o p gen, blast)
  have 2: "\<exists>out. snd (analyzeShoulderAbduction newAnalyzer armsDown
      shoulderAbductionConfig) = Inr out \<and> map priority (feedback out) = [3]"
    by (rule exI [of _ out']) (insert o' p', blast)
  show ?thesis by (intro conjI 1 2 ex)
qed

subsection \<open>C8: the score and its range\<close>

text \<open>
  C8. The score of a squat frame is 100, minus 15 when the frame is in the bottom
  position without good depth, minus 20 for valgus, minus 10 for excessive lean,
  floored at 0; it is stored in \<^verbatim>\<open>currentScore\<close> and returned. \<^verbatim>\<open>currentScore\<close>
  stays in \<open>[0, 100]\<close> over every call (also one that throws, and \<^verbatim>\<open>reset\<close>), hence in
  every state reached from a fresh analyzer; \<^verbatim>\<open>reset\<close> sets it to 0.
\<close>

theorem score_deductions_and_range:
  "(squatFrame (getKeyLandmarks f) = Inr g \<longrightarrow>
      currentScore (fst (analyzeSquat s f c now)) =
        max 0 (100 - (if isInBottomPosition g \<and> \<not> hasGoodDepth g then 15 else 0)
                   - (if leftValgus g \<or> rightValgus g then 20 else 0)
                   - (if excessiveLean g then 10 else 0)) \<and>
      (\<exists>out. snd (analyzeSquat s f c now) = Inr out \<and>
         score out = currentScore (fst (analyzeSquat s f c now)))) \<and>
   (0 \<le> currentScore s \<and> currentScore s \<le> 100 \<longrightarrow>
      0 \<le> currentScore (perform s call) \<and> currentScore (perform s call) \<le> 100) \<and>
   0 \<le> currentScore (run newAnalyzer calls) \<and> currentScore (run newAnalyzer calls) \<le> 100 \<and>
   currentScore (reset s) = 0"
proof (intro conjI impI)
  assume g: "squatFrame (getKeyLandmarks f) = Inr g"
  show "currentScore (fst (analyzeSquat s f c now)) =
        max 0 (100 - (if isInBottomPosition g \<and> \<not> hasGoodDepth g then 15 else 0)
                   - (if leftValgus g \<or> rightValgus g then 20 else 0)
                   - (if excessiveLean g then 10 else 0))"
    by (simp only: analyzeSquat_Inr [OF g] squatFeedback_score fst_conv) simp
  show "\<exists>out. snd (analyzeSquat s f c now) = Inr out \<and>
         score out = currentScore (fst (analyzeSquat s f c now))"
    by (simp add: analyzeSquat_Inr [OF g])
next
  assume "0 \<le> currentScore s \<and> currentScore s \<le> 100"
  from perform_score [OF this]
  show "0 \<le> currentScore (perform s call)" "currentScore (perform s call) \<le> 100"
    by simp_all
next
  have "0 \<le> currentScore newAnalyzer \<and> currentScore newAnalyzer \<le> 100"
    by (simp add: newAnalyzer_def)
  from run_score [OF this]
  show "0 \<le> currentScore (run newAnalyzer calls)" "currentScore (run newAnalyzer calls) \<le> 100"
    by simp_all
next
  show "currentScore (reset s) = 0" by (simp add: reset_def)
qed

text \<open>
  The theorem at a frame on which the three deductions apply together: the score is 55.
\<close>

theorem score_deductions_and_range_witness:
  "squatFrame (getKeyLandmarks poorSquat) =
     Inr \<lparr> kneeAngle = 90, hipAngle = 180, isInBottomPosition = True,
           hasGoodDepth = False, leftValgus = True, rightValgus = False, excessiveLean = True \<rparr> \<and>
   currentScore (fst (analyzeSquat newAnalyzer poorSquat squatConfig 1000)) = 55 \<and>
   (\<exists>out. snd (analyzeSquat newAnalyzer poorSquat squatConfig 1000) = Inr out \<and> score out = 55) \<and>
   0 \<le> currentScore (perform newAnalyzer (Squat poorSquat squatConfig 1000)) \<and>
   currentScore (perform newAnalyzer (Squat poorSquat squatConfig 1000)) \<le> 100"
  using score_deductions_and_range [where f = poorSquat and s = newAnalyzer and c = squatConfig
      and now = 1000 and call = "Squat poorSquat squatConfig 1000"
      and g = "\<lparr> kneeAngle = 90, hipAngle = 180, isInBottomPosition = True,
          hasGoodDepth = False, leftValgus = True, rightValgus = False, excessiveLean = True \<rparr>"]
  by (simp add: poorSquat_frame after_poorSquat)

subsection \<open>C9: the configuration is not read\<close>

text \<open>
  C9. For every state, frame and time, \<^verbatim>\<open>analyzeSquat\<close> returns the same result and
  the same state under any two configurations, and so does
  \<^verbatim>\<open>analyzeShoulderAbduction\<close>: the thresholds of \<^verbatim>\<open>EXERCISE_CONFIGS\<close> are never read.
\<close>

theorem config_is_ignored:
  "analyzeSquat s f c1 now = analyzeSquat s f c2 now \<and>
   analyzeShoulderAbduction s f c1 = analyzeShoulderAbduction s f c2"
  by (simp add: analyzeSquat_def analyzeShoulderAbduction_def)

text \<open>
  The theorem at the registered squat configuration against one with other thresholds,
  and at the two registered configurations.
\<close>

theorem config_is_ignored_witness:
  "analyzeSquat newAnalyzer poorSquat squatConfig 1000 =
     analyzeSquat newAnalyzer poorSquat
       (squatConfig\<lparr>thresholds := noThresholds\<lparr>depth := Some 10, valgusLimit := Some 1,
          leanLimit := Some 1\<rparr>\<rparr>) 1000 \<and>
   analyzeShoulderAbduction newAnalyzer armsDown shoulderAbductionConfig =
     analyzeShoulderAbduction newAnalyzer armsDown squatConfig"
  using config_is_ignored [of newAnalyzer poorSquat squatConfig 1000
      "squatConfig\<lparr>thresholds := noThresholds\<lparr>depth := Some 10, valgusLimit := Some 1,
          leanLimit := Some 1\<rparr>\<rparr>"]
    config_is_ignored [of newAnalyzer armsDown shoulderAbductionConfig 0 squatConfig]
  by simp

subsection \<open>C10: no score below 55\<close>

text \<open>
  C10. The score computed for a frame by either policy is at least 55, so flooring it
  at 0 leaves it unchanged, and the score returned by a call of \<^verbatim>\<open>analyzeSquat\<close> or
  \<^verbatim>\<open>analyzeShoulderAbduction\<close> is at least 55 and never 0.
\<close>

theorem score_at_least_55:
  "55 \<le> snd (squatFeedback g fc) \<and> max 0 (snd (squatFeedback g fc)) = snd (squatFeedback g fc) \<and>
   55 \<le> snd (shoulderFeedback h) \<and> max 0 (snd (shoulderFeedback h)) = snd (shoulderFeedback h) \<and>
   (snd (analyzeSquat s f c now) = Inr out \<longrightarrow> 55 \<le> score out \<and> score out \<noteq> 0) \<and>
   (snd (analyzeShoulderAbduction s f' c') = Inr out' \<longrightarrow> 55 \<le> score out' \<and> score out' \<noteq> 0)"
proof -
  have a: "55 \<le> snd (squatFeedback g fc)" for g fc
    using squatFeedback_bounds [of g fc] by simp
  have b: "55 \<le> snd (shoulderFeedback h)" for h
    using shoulderFeedback_bounds [of h] by simp
  have c: "55 \<le> score out \<and> score out \<noteq> 0" if "snd (analyzeSquat s f c now) = Inr out"
  proof -
    from that obtain g' where "score out = max 0 (snd (squatFeedback g' (frameCount s + 1)))"
      by (rule analyzeSquat_out)
    with a [of g' "frameCount s + 1"] show ?thesis by simp
  qed
  have d: "55 \<le> score out' \<and> score out' \<noteq> 0"
    if "snd (analyzeShoulderAbduction s f' c') = Inr out'"
  proof -
    from that obtain h' where "score out' = max 0 (snd (shoulderFeedback h'))"
      by (rule analyzeShoulderAbduction_out)
    with b [of h'] show ?thesis by simp
  qed
  show ?thesis using a [of g fc] b [of h] c d by simp
qed

text \<open>
  The theorem at a squat frame of score 55 and at a shoulder frame of score 85.
\<close>

theorem score_at_least_55_witness:
  "(\<exists>out. snd (analyzeSquat newAnalyzer poorSquat squatConfig 1000) = Inr out \<and>
      score out = 55 \<and> 55 \<le> score out \<and> score out \<noteq> 0) \<and>
   (\<exists>out. snd (analyzeShoulderAbduction newAnalyzer armsDown shoulderAbductionConfig) = Inr out \<and>
      score out = 85 \<and> 55 \<le> score out \<and> score out \<noteq> 0)"
  using score_at_least_55 [where s = newAnalyzer and f = poorSquat and c = squatConfig
      and now = 1000 and f' = armsDown and c' = shoulderAbductionConfig]
  by (simp add: after_poorSquat after_armsDown)

end
